theory Spec2Isabelle
  imports Main
begin

section \<open>Python values and exceptions\<close>

text \<open>
  Decoded JSON, as Python's \<open>json\<close> module and \<open>Response.json()\<close> hand it to the
  program: \<open>None\<close>, \<open>bool\<close>, \<open>int\<close>, \<open>str\<close>, \<open>list\<close> and \<open>dict\<close> (an association list
  with string keys). Floating-point numbers are left out of the model.
\<close>

datatype json =
    JNull
  | JBool bool
  | JInt int
  | JStr string
  | JArr "json list"
  | JObj "(string \<times> json) list"

text \<open>
  The exceptions the program can raise, as values: an exception is its class and its
  argument. \<open>Exception\<close> carries the message of the two explicit \<open>raise\<close> statements of
  \<open>_prepareMicrosoftLogin\<close>; \<open>KeyError\<close> carries the missing key; \<open>TransportError\<close> is
  whatever the HTTP library raises (connection refused, timeout, ...), tagged by the
  environment; \<open>JSONDecodeError\<close> is raised by \<open>Response.json()\<close> and \<open>json.loads\<close>.
\<close>

datatype error =
    IndexError
  | ValueError
  | KeyError json
  | TypeError
  | Exception string
  | JSONDecodeError
  | TransportError string
  | UnboundLocalError

section \<open>String primitives\<close>

text \<open>\<open>s.split(sep)\<close> for a one-character separator: always at least one piece.\<close>

fun py_split :: "char \<Rightarrow> string \<Rightarrow> string list" where
  "py_split sep [] = [Nil]"
| "py_split sep (c # cs) =
     (if c = sep then [] # py_split sep cs
      else (case py_split sep cs of
              [] \<Rightarrow> [c] # []
            | p # ps \<Rightarrow> (c # p) # ps))"

text \<open>\<open>s.index(c)\<close>: the position of the first occurrence, \<open>ValueError\<close> when there is none.\<close>

fun py_index :: "char \<Rightarrow> string \<Rightarrow> error + nat" where
  "py_index c [] = Inl ValueError"
| "py_index c (d # ds) =
     (if d = c then Inr 0
      else (case py_index c ds of Inl e \<Rightarrow> Inl e | Inr i \<Rightarrow> Inr (Suc i)))"

text \<open>\<open>s[i:-1]\<close> for a non-negative \<open>i\<close>.\<close>

definition py_slice_to_last :: "nat \<Rightarrow> string \<Rightarrow> string" where
  "py_slice_to_last i s = drop i (butlast s)"

section \<open>The fragment parser: \<open>MCAuthenticator._getParamsFromUrl\<close>\<close>

text \<open>
  The loop \<open>for paramStr in paramsList: param, val = paramStr.split('='); params[param] = val\<close>.
  Unpacking into two names raises \<open>ValueError\<close> unless the split has exactly two pieces.
\<close>

fun params_loop :: "string list \<Rightarrow> (string \<rightharpoonup> string) \<Rightarrow> error + (string \<rightharpoonup> string)" where
  "params_loop [] params = Inr params"
| "params_loop (paramStr # rest) params =
     (case py_split (CHR ''='') paramStr of
        [param, val] \<Rightarrow> params_loop rest (params(param \<mapsto> val))
      | _ \<Rightarrow> Inl ValueError)"

text \<open>\<open>url.split('#')[1]\<close> raises \<open>IndexError\<close> when the split has a single piece.\<close>

definition getParamsFromUrl :: "string \<Rightarrow> error + (string \<rightharpoonup> string)" where
  "getParamsFromUrl url =
     (case py_split (CHR ''#'') url of
        _ # allParamsStr # _ \<Rightarrow> params_loop (py_split (CHR ''&'') allParamsStr) Map.empty
      | _ \<Rightarrow> Inl IndexError)"

section \<open>The scraper: \<open>re.search\<close> for \<open>literal(.+?)delimiter\<close>\<close>

text \<open>
  Both patterns of \<open>_prepareMicrosoftLogin\<close>, \<open>value="(.+?)"\<close> and \<open>urlPost:'(.+?)'\<close>, are
  a literal prefix, a lazy group of one or more characters other than the line feed, and a
  closing delimiter. \<open>lazy_until q s\<close> is what the group takes after its first character:
  the shortest run up to the first \<open>q\<close>, and no match when a line feed or the end of the
  text comes first.
\<close>

definition line_feed :: char where
  "line_feed = CHR 0x0A"

definition dquote :: char where
  "dquote = CHR 0x22"

definition squote :: char where
  "squote = CHR 0x27"

fun lazy_until :: "char \<Rightarrow> string \<Rightarrow> string option" where
  "lazy_until q [] = None"
| "lazy_until q (d # ds) =
     (if d = q then Some []
      else if d = line_feed then None
      else map_option ((#) d) (lazy_until q ds))"

definition lazy_group :: "char \<Rightarrow> string \<Rightarrow> string option" where
  "lazy_group q s =
     (case s of
        [] \<Rightarrow> None
      | c # cs \<Rightarrow> if c = line_feed then None else map_option ((#) c) (lazy_until q cs))"

text \<open>The match that starts at the head of \<open>s\<close>, as \<open>match.group()\<close> returns it.\<close>

definition match_at :: "string \<Rightarrow> char \<Rightarrow> string \<Rightarrow> string option" where
  "match_at pre q s =
     (if take (length pre) s = pre
      then map_option (\<lambda>g. pre @ g @ [q]) (lazy_group q (drop (length pre) s))
      else None)"

text \<open>\<open>re.search\<close>: the match at the leftmost position that has one.\<close>

fun re_search :: "string \<Rightarrow> char \<Rightarrow> string \<Rightarrow> string option" where
  "re_search pre q [] = match_at pre q []"
| "re_search pre q (c # cs) =
     (case match_at pre q (c # cs) of
        Some m \<Rightarrow> Some m
      | None \<Rightarrow> re_search pre q cs)"

text \<open>
  The body of \<open>_prepareMicrosoftLogin\<close> after the GET, on the text of the response:
  search, \<open>raise Exception\<close> when there is no match, then cut the match from behind its
  first quote to before its last character.
\<close>

definition scrape_login_page :: "string \<Rightarrow> error + string \<times> string" where
  "scrape_login_page text =
     (case re_search (''value='' @ [dquote]) dquote text of
        None \<Rightarrow> Inl (Exception ''SFTTagNotFoundError: sFTTag value was not found'')
      | Some sFTTagSource \<Rightarrow>
          (case py_index dquote sFTTagSource of
             Inl e \<Rightarrow> Inl e
           | Inr i \<Rightarrow>
               (let sFTTag = py_slice_to_last (i + 1) sFTTagSource in
                (case re_search (''urlPost:'' @ [squote]) squote text of
                   None \<Rightarrow> Inl (Exception ''URLPostNotFoundError: url post value was not found'')
                 | Some urlPostSource \<Rightarrow>
                     (case py_index squote urlPostSource of
                        Inl e \<Rightarrow> Inl e
                      | Inr j \<Rightarrow> Inr (sFTTag, py_slice_to_last (j + 1) urlPostSource))))))"

section \<open>The outside world\<close>

text \<open>
  An HTTP request as the program builds it. \<open>req_session\<close> tells \<open>session.get/post\<close> from
  \<open>requests.get/post\<close>. \<open>JsonData j\<close> is the text \<open>json.dumps(j)\<close>.
\<close>

datatype http_method = GET | POST

datatype body = NoData | FormData string | JsonData json

record request =
  req_session :: bool
  req_method :: http_method
  req_url :: string
  req_headers :: "(string \<times> string) list"
  req_data :: body

text \<open>
  What the program reads of a response: \<open>res.text\<close>, \<open>res.url\<close> (the final URL, after
  redirects) and \<open>res.json()\<close>, which raises when the body is not JSON (\<open>None\<close> here).
\<close>

record response =
  res_text :: string
  res_url :: string
  res_json :: "json option"

datatype event =
    Request request
  | Print string
  | PrintSets "json list" "json list" "json list"
  | Sleep nat

text \<open>
  The environment is everything the program does not contain: the servers (the answer to
  the n-th exchange of the run, or the exception the HTTP library raises), the library's
  JSON decoder, Python's \<open>str()\<close> on values that are not strings, and the order in which
  a \<open>set\<close> is iterated (what \<open>set_order\<close> makes of the list of its members).
\<close>

record env =
  server :: "nat \<Rightarrow> request \<Rightarrow> error + response"
  json_decoder :: "string \<Rightarrow> json option"
  py_repr :: "json \<Rightarrow> string"
  set_order :: "json list \<Rightarrow> json list"

text \<open>The state: how many exchanges were made, and everything observable so far, in order.\<close>

record world =
  tick :: nat
  trace :: "event list"

type_synonym ('a, 'z) io = "'z world_scheme \<Rightarrow> (error + 'a) \<times> 'z world_scheme"

definition ret :: "'a \<Rightarrow> ('a, 'z) io" where
  "ret a = (\<lambda>w. (Inr a, w))"

definition lift :: "error + 'a \<Rightarrow> ('a, 'z) io" where
  "lift r = (\<lambda>w. (r, w))"

definition bnd :: "('a, 'z) io \<Rightarrow> ('a \<Rightarrow> ('b, 'z) io) \<Rightarrow> ('b, 'z) io" where
  "bnd m f = (\<lambda>w. case m w of (Inl e, w') \<Rightarrow> (Inl e, w') | (Inr a, w') \<Rightarrow> f a w')"

definition emit :: "event \<Rightarrow> (unit, 'z) io" where
  "emit ev = (\<lambda>w. (Inr (), w\<lparr>trace := trace w @ [ev]\<rparr>))"

definition http :: "env \<Rightarrow> request \<Rightarrow> (response, 'z) io" where
  "http E r = (\<lambda>w. (server E (tick w) r, w\<lparr>tick := Suc (tick w), trace := trace w @ [Request r]\<rparr>))"

section \<open>Operations on decoded JSON\<close>

definition res_json_call :: "response \<Rightarrow> error + json" where
  "res_json_call res = (case res_json res of None \<Rightarrow> Inl JSONDecodeError | Some j \<Rightarrow> Inr j)"

text \<open>\<open>v[k]\<close> for a string \<open>k\<close>; a decoded dictionary has each key once.\<close>

definition subscript_key :: "json \<Rightarrow> string \<Rightarrow> error + json" where
  "subscript_key v k =
     (case v of
        JObj kvs \<Rightarrow> (case map_of kvs k of None \<Rightarrow> Inl (KeyError (JStr k)) | Some x \<Rightarrow> Inr x)
      | _ \<Rightarrow> Inl TypeError)"

text \<open>\<open>v[0]\<close>.\<close>

definition subscript_zero :: "json \<Rightarrow> error + json" where
  "subscript_zero v =
     (case v of
        JArr xs \<Rightarrow> (case xs of [] \<Rightarrow> Inl IndexError | x # _ \<Rightarrow> Inr x)
      | JStr s \<Rightarrow> (case s of [] \<Rightarrow> Inl IndexError | c # _ \<Rightarrow> Inr (JStr [c]))
      | JObj kvs \<Rightarrow> Inl (KeyError (JInt 0))
      | _ \<Rightarrow> Inl TypeError)"

text \<open>\<open>for x in v\<close>: the elements of a list, the keys of a dictionary, the characters of a string.\<close>

definition py_iter :: "json \<Rightarrow> error + json list" where
  "py_iter v =
     (case v of
        JArr xs \<Rightarrow> Inr xs
      | JObj kvs \<Rightarrow> Inr (map (\<lambda>kv. JStr (fst kv)) kvs)
      | JStr s \<Rightarrow> Inr (map (\<lambda>c. JStr [c]) s)
      | _ \<Rightarrow> Inl TypeError)"

text \<open>\<open>str(v)\<close>, as an f-string formats a value.\<close>

definition py_str :: "env \<Rightarrow> json \<Rightarrow> string" where
  "py_str E v = (case v of JStr s \<Rightarrow> s | _ \<Rightarrow> py_repr E v)"

text \<open>\<open>json.loads(v)\<close>: \<open>TypeError\<close> unless \<open>v\<close> is a string.\<close>

definition json_loads :: "env \<Rightarrow> json \<Rightarrow> error + json" where
  "json_loads E v =
     (case v of
        JStr s \<Rightarrow> (case json_decoder E s of None \<Rightarrow> Inl JSONDecodeError | Some j \<Rightarrow> Inr j)
      | _ \<Rightarrow> Inl TypeError)"

text \<open>
  Python's \<open>==\<close> on values that can be hashed: \<open>True == 1\<close> and \<open>False == 0\<close>, everything
  else is equal to itself only. \<open>py_key\<close> picks the integer as the representative.
\<close>

definition py_key :: "json \<Rightarrow> json" where
  "py_key v = (case v of JBool b \<Rightarrow> JInt (if b then 1 else 0) | _ \<Rightarrow> v)"

definition py_eq :: "json \<Rightarrow> json \<Rightarrow> bool" where
  "py_eq x y = (py_key x = py_key y)"

section \<open>\<open>MCAuthenticator\<close>\<close>

definition MICROSOFT_AUTH_DOMAIN :: string where
  "MICROSOFT_AUTH_DOMAIN = ''https://login.live.com''"

definition XBOX_LIVE_AUTH_DOMAIN :: string where
  "XBOX_LIVE_AUTH_DOMAIN = ''https://user.auth.xboxlive.com''"

definition XBOX_LIVE_XSTS_AUTH_DOMAIN :: string where
  "XBOX_LIVE_XSTS_AUTH_DOMAIN = ''https://xsts.auth.xboxlive.com''"

definition MINECRAFT_AUTH_DOMAIN :: string where
  "MINECRAFT_AUTH_DOMAIN = ''https://api.minecraftservices.com''"

definition MOJANG_DOMAIN :: string where
  "MOJANG_DOMAIN = ''https://api.mojang.com''"

definition json_headers :: "(string \<times> string) list" where
  "json_headers = [(''Content-Type'', ''application/json''), (''Accept'', ''application/json'')]"

subsection \<open>The directory lookups\<close>

definition getUsername_request :: "env \<Rightarrow> json \<Rightarrow> request" where
  "getUsername_request E uid =
     \<lparr>req_session = False, req_method = GET,
      req_url = MOJANG_DOMAIN @ ''/user/profiles/'' @ py_str E uid @ ''/names'',
      req_headers = [], req_data = NoData\<rparr>"

definition getUsername :: "env \<Rightarrow> json \<Rightarrow> (json, 'z) io" where
  "getUsername E uid =
     bnd (http E (getUsername_request E uid)) (\<lambda>res.
     bnd (lift (res_json_call res)) (\<lambda>resPayload.
     bnd (lift (subscript_zero resPayload)) (\<lambda>first.
     lift (subscript_key first ''name''))))"

definition getUid_request :: "string \<Rightarrow> request" where
  "getUid_request profileName =
     \<lparr>req_session = False, req_method = GET,
      req_url = MOJANG_DOMAIN @ ''/users/profiles/minecraft/'' @ profileName,
      req_headers = [(''Accept'', ''application/json'')], req_data = NoData\<rparr>"

definition getUid :: "env \<Rightarrow> string \<Rightarrow> (json, 'z) io" where
  "getUid E profileName =
     bnd (http E (getUid_request profileName)) (\<lambda>res.
     bnd (lift (res_json_call res)) (\<lambda>resPayload.
     lift (subscript_key resPayload ''id'')))"

subsection \<open>Stage 1: \<open>_prepareMicrosoftLogin\<close>\<close>

definition prepare_request :: request where
  "prepare_request =
     \<lparr>req_session = True, req_method = GET,
      req_url = MICROSOFT_AUTH_DOMAIN @
        ''/oauth20_authorize.srf?client_id=000000004C12AE6F&redirect_uri=https://login.live.com/oauth20_desktop.srf&scope=service::user.auth.xboxlive.com::MBI_SSL&display=touch&response_type=token&locale=en'',
      req_headers = [], req_data = NoData\<rparr>"

definition prepareMicrosoftLogin :: "env \<Rightarrow> (string \<times> string, 'z) io" where
  "prepareMicrosoftLogin E =
     bnd (http E prepare_request) (\<lambda>res.
     lift (scrape_login_page (res_text res)))"

subsection \<open>Stage 2: \<open>_authenticateWithMicrosoft\<close>\<close>

text \<open>\<open>credentials[k]\<close>: the dictionary is the caller's, so a key can be missing.\<close>

definition credential :: "(string \<rightharpoonup> string) \<Rightarrow> string \<Rightarrow> error + string" where
  "credential credentials k =
     (case credentials k of None \<Rightarrow> Inl (KeyError (JStr k)) | Some v \<Rightarrow> Inr v)"

definition microsoft_request :: "string \<Rightarrow> string \<Rightarrow> string \<Rightarrow> string \<Rightarrow> request" where
  "microsoft_request authServerUrl sFTTag email password =
     \<lparr>req_session = True, req_method = POST, req_url = authServerUrl,
      req_headers = [(''Content-Type'', ''application/x-www-form-urlencoded'')],
      req_data = FormData (''login='' @ email @ ''&loginfmt='' @ email @
                           ''&passwd='' @ password @ ''&PPFT='' @ sFTTag)\<rparr>"

text \<open>\<open>loginData['access_token']\<close> on the dictionary of the fragment parser.\<close>

definition param :: "(string \<rightharpoonup> string) \<Rightarrow> string \<Rightarrow> error + string" where
  "param loginData k =
     (case loginData k of None \<Rightarrow> Inl (KeyError (JStr k)) | Some v \<Rightarrow> Inr v)"

definition authenticateWithMicrosoft ::
    "env \<Rightarrow> string \<Rightarrow> string \<Rightarrow> (string \<rightharpoonup> string) \<Rightarrow> (string, 'z) io" where
  "authenticateWithMicrosoft E authServerUrl sFTTag credentials =
     bnd (lift (credential credentials ''email'')) (\<lambda>email.
     bnd (lift (credential credentials ''password'')) (\<lambda>password.
     bnd (http E (microsoft_request authServerUrl sFTTag email password)) (\<lambda>res.
     bnd (lift (getParamsFromUrl (res_url res))) (\<lambda>loginData.
     lift (param loginData ''access_token'')))))"

subsection \<open>Stage 3: \<open>_authenticateWithXboxLive\<close>\<close>

definition xboxlive_request :: "string \<Rightarrow> request" where
  "xboxlive_request accessToken =
     \<lparr>req_session = True, req_method = POST,
      req_url = XBOX_LIVE_AUTH_DOMAIN @ ''/user/authenticate'',
      req_headers = json_headers,
      req_data = JsonData (JObj
        [(''Properties'', JObj [(''AuthMethod'', JStr ''RPS''),
                                (''SiteName'', JStr ''user.auth.xboxlive.com''),
                                (''RpsTicket'', JStr accessToken)]),
         (''RelyingParty'', JStr ''http://auth.xboxlive.com''),
         (''TokenType'', JStr ''JWT'')])\<rparr>"

definition authenticateWithXboxLive :: "env \<Rightarrow> string \<Rightarrow> (json \<times> json, 'z) io" where
  "authenticateWithXboxLive E accessToken =
     bnd (http E (xboxlive_request accessToken)) (\<lambda>res.
     bnd (lift (res_json_call res)) (\<lambda>resPayload.
     bnd (lift (subscript_key resPayload ''Token'')) (\<lambda>xboxLiveToken.
     bnd (lift (subscript_key resPayload ''DisplayClaims'')) (\<lambda>claims.
     bnd (lift (subscript_key claims ''xui'')) (\<lambda>xui.
     bnd (lift (subscript_zero xui)) (\<lambda>first.
     bnd (lift (subscript_key first ''uhs'')) (\<lambda>uhs.
     ret (xboxLiveToken, uhs))))))))"

subsection \<open>Stage 4: \<open>_getXstsToken\<close>\<close>

definition xsts_request :: "json \<Rightarrow> request" where
  "xsts_request xboxLiveToken =
     \<lparr>req_session = True, req_method = POST,
      req_url = XBOX_LIVE_XSTS_AUTH_DOMAIN @ ''/xsts/authorize'',
      req_headers = json_headers,
      req_data = JsonData (JObj
        [(''Properties'', JObj [(''SandboxId'', JStr ''RETAIL''),
                                (''UserTokens'', JArr [xboxLiveToken])]),
         (''RelyingParty'', JStr ''rp://api.minecraftservices.com/''),
         (''TokenType'', JStr ''JWT'')])\<rparr>"

definition getXstsToken :: "env \<Rightarrow> json \<Rightarrow> (json, 'z) io" where
  "getXstsToken E xboxLiveToken =
     bnd (http E (xsts_request xboxLiveToken)) (\<lambda>res.
     bnd (lift (res_json_call res)) (\<lambda>resPayload.
     lift (subscript_key resPayload ''Token'')))"

subsection \<open>Stage 5: \<open>_authenticateWithMinecraft\<close>\<close>

definition minecraft_request :: "env \<Rightarrow> json \<Rightarrow> json \<Rightarrow> request" where
  "minecraft_request E xstsToken userHash =
     \<lparr>req_session = True, req_method = POST,
      req_url = MINECRAFT_AUTH_DOMAIN @ ''/authentication/login_with_xbox'',
      req_headers = json_headers,
      req_data = JsonData (JObj
        [(''identityToken'', JStr (''XBL3.0 x='' @ py_str E userHash @ '';'' @ py_str E xstsToken)),
         (''ensureLegacyEnabled'', JBool True)])\<rparr>"

definition authenticateWithMinecraft :: "env \<Rightarrow> json \<Rightarrow> json \<Rightarrow> (json, 'z) io" where
  "authenticateWithMinecraft E xstsToken userHash =
     bnd (http E (minecraft_request E xstsToken userHash)) (\<lambda>res.
     bnd (lift (res_json_call res)) (\<lambda>resPayload.
     lift (subscript_key resPayload ''access_token'')))"

subsection \<open>The orchestrator: \<open>authenticate\<close>\<close>

definition authenticate :: "env \<Rightarrow> (string \<rightharpoonup> string) \<Rightarrow> (json, 'z) io" where
  "authenticate E credentials =
     bnd (prepareMicrosoftLogin E) (\<lambda>(sFTTag, urlPost).
     bnd (emit (Print ''STATUS 200: Successfully prepared for authentication'')) (\<lambda>_.
     bnd (authenticateWithMicrosoft E urlPost sFTTag credentials) (\<lambda>msAccessToken.
     bnd (emit (Print ''STATUS 200: Authenticated with Microsoft'')) (\<lambda>_.
     bnd (authenticateWithXboxLive E msAccessToken) (\<lambda>(xboxLiveToken, userHash).
     bnd (emit (Print ''STATUS 200: Authenticated with Xbox Live'')) (\<lambda>_.
     bnd (getXstsToken E xboxLiveToken) (\<lambda>xstsToken.
     bnd (emit (Print ''STATUS 200: Retrieved xsts token'')) (\<lambda>_.
     bnd (authenticateWithMinecraft E xstsToken userHash) (\<lambda>mcAccessToken.
     bnd (emit (Print ''STATUS 200: Authenticated with Minecraft'')) (\<lambda>_.
     ret mcAccessToken))))))))))"


section \<open>\<open>MCRealmsClient\<close>\<close>

definition MC_REALMS_DOMAIN :: string where
  "MC_REALMS_DOMAIN = ''https://pc.realms.minecraft.net''"

record client =
  c_username :: string
  c_accessToken :: json
  c_uid :: json

definition client_authenticate :: "env \<Rightarrow> string \<Rightarrow> string \<Rightarrow> string \<Rightarrow> (json \<times> json, 'z) io" where
  "client_authenticate E username email password =
     bnd (authenticate E [''email'' \<mapsto> email, ''password'' \<mapsto> password]) (\<lambda>accessToken.
     bnd (getUid E username) (\<lambda>uid.
     ret (accessToken, uid)))"

definition client_init :: "env \<Rightarrow> string \<Rightarrow> string \<Rightarrow> string \<Rightarrow> (client, 'z) io" where
  "client_init E username email password =
     bnd (client_authenticate E username email password) (\<lambda>(accessToken, uid).
     ret \<lparr>c_username = username, c_accessToken = accessToken, c_uid = uid\<rparr>)"

definition session_cookie :: "env \<Rightarrow> client \<Rightarrow> string" where
  "session_cookie E self =
     ''sid=token:'' @ py_str E (c_accessToken self) @ '':'' @ py_str E (c_uid self) @
     '';user='' @ c_username self @ '';version=1.18.2''"

definition presence_request :: "env \<Rightarrow> client \<Rightarrow> request" where
  "presence_request E self =
     \<lparr>req_session = True, req_method = GET,
      req_url = MC_REALMS_DOMAIN @ ''/activities/liveplayerlist'',
      req_headers = [(''Content-Type'', ''application/json''),
                     (''Accept'', ''application/json''),
                     (''Cookie'', session_cookie E self)],
      req_data = NoData\<rparr>"

definition getPlayerName :: "env \<Rightarrow> json \<Rightarrow> (json, 'z) io" where
  "getPlayerName E uid = getUsername E uid"

text \<open>\<open>[self.getPlayerName(player['playerId']) for player in playerList]\<close>\<close>

fun player_names :: "env \<Rightarrow> json list \<Rightarrow> (json list, 'z) io" where
  "player_names E [] = ret []"
| "player_names E (player # rest) =
     bnd (lift (subscript_key player ''playerId'')) (\<lambda>playerId.
     bnd (getPlayerName E playerId) (\<lambda>name.
     bnd (player_names E rest) (\<lambda>names.
     ret (name # names))))"

text \<open>The body of the loop once the entry's id is the target's: it ends in \<open>return\<close>.\<close>

definition entry_players :: "env \<Rightarrow> json \<Rightarrow> (json list, 'z) io" where
  "entry_players E serverActivity =
     bnd (lift (subscript_key serverActivity ''playerList'')) (\<lambda>playerListStr.
     bnd (lift (json_loads E playerListStr)) (\<lambda>playerList.
     bnd (lift (py_iter playerList)) (\<lambda>players.
     player_names E players)))"

text \<open>\<open>for serverActivity in serverActivityList: ...\<close>, then \<open>return []\<close>.\<close>

fun scan_activities :: "env \<Rightarrow> int \<Rightarrow> json list \<Rightarrow> (json list, 'z) io" where
  "scan_activities E targetServerId [] = ret []"
| "scan_activities E targetServerId (serverActivity # rest) =
     bnd (lift (subscript_key serverActivity ''serverId'')) (\<lambda>serverId.
     if \<not> py_eq serverId (JInt targetServerId)
     then scan_activities E targetServerId rest
     else entry_players E serverActivity)"

definition getPlayersList :: "env \<Rightarrow> client \<Rightarrow> int \<Rightarrow> (json list, 'z) io" where
  "getPlayersList E self targetServerId =
     bnd (http E (presence_request E self)) (\<lambda>res.
     bnd (lift (res_json_call res)) (\<lambda>resPayload.
     bnd (lift (subscript_key resPayload ''lists'')) (\<lambda>serverActivityList.
     bnd (lift (py_iter serverActivityList)) (\<lambda>entries.
     scan_activities E targetServerId entries))))"

section \<open>The poller: \<open>webhook.main\<close>\<close>

record config =
  USERNAME :: string
  EMAIL :: string
  PASSWORD :: string
  SERVER_ID :: int
  DISCORD_WEBHOOKS_URL :: string

text \<open>
  A Python \<open>set\<close> of decoded values, as the list of its members in insertion order, no
  two of them equal. \<open>set(xs)\<close> raises \<open>TypeError\<close> at a list or a dictionary, which
  cannot be hashed.
\<close>

definition hashable :: "json \<Rightarrow> bool" where
  "hashable v = (case v of JArr _ \<Rightarrow> False | JObj _ \<Rightarrow> False | _ \<Rightarrow> True)"

fun py_set_from :: "json list \<Rightarrow> json list \<Rightarrow> error + json list" where
  "py_set_from acc [] = Inr acc"
| "py_set_from acc (x # xs) =
     (if \<not> hashable x then Inl TypeError
      else py_set_from (if list_ex (py_eq x) acc then acc else acc @ [x]) xs)"

definition py_set :: "json list \<Rightarrow> error + json list" where
  "py_set xs = py_set_from [] xs"

definition py_difference :: "json list \<Rightarrow> json list \<Rightarrow> json list" where
  "py_difference cur prev = filter (\<lambda>x. \<not> list_ex (py_eq x) prev) cur"

text \<open>The local variable \<open>prevPlayers\<close> of \<open>main\<close>; \<open>None\<close> before its first assignment.\<close>

record poller = world +
  prevPlayers :: "json list option"

definition read_prevPlayers :: "(json list, 'z poller_ext) io" where
  "read_prevPlayers =
     (\<lambda>s. (case prevPlayers s of None \<Rightarrow> Inl UnboundLocalError | Some p \<Rightarrow> Inr p, s))"

definition assign_prevPlayers :: "json list \<Rightarrow> (unit, 'z poller_ext) io" where
  "assign_prevPlayers v = (\<lambda>s. (Inr (), s\<lparr>prevPlayers := Some v\<rparr>))"

definition notification_request :: "env \<Rightarrow> config \<Rightarrow> json \<Rightarrow> request" where
  "notification_request E cfg playerName =
     \<lparr>req_session = False, req_method = POST, req_url = DISCORD_WEBHOOKS_URL cfg,
      req_headers = [(''Content-Type'', ''application/json'')],
      req_data = JsonData (JObj
        [(''content'', JStr (''@everyone '' @ py_str E playerName @
                             '' is now playing on the server!''))])\<rparr>"

text \<open>\<open>for playerName in newlyOnlinePlayers: requests.post(...)\<close>\<close>

fun notify_all :: "env \<Rightarrow> config \<Rightarrow> json list \<Rightarrow> (unit, 'z) io" where
  "notify_all E cfg [] = ret ()"
| "notify_all E cfg (playerName # rest) =
     bnd (http E (notification_request E cfg playerName)) (\<lambda>_.
     notify_all E cfg rest)"

text \<open>One iteration of \<open>while True\<close>.\<close>

definition poll_cycle :: "env \<Rightarrow> config \<Rightarrow> client \<Rightarrow> (unit, 'z poller_ext) io" where
  "poll_cycle E cfg realmsClient =
     bnd (getPlayersList E realmsClient (SERVER_ID cfg)) (\<lambda>activePlayerNames.
     bnd (lift (py_set activePlayerNames)) (\<lambda>currPlayers.
     bnd read_prevPlayers (\<lambda>prev.
     bnd (emit (PrintSets prev currPlayers (py_difference currPlayers prev))) (\<lambda>_.
     bnd (assign_prevPlayers currPlayers) (\<lambda>_.
     bnd (notify_all E cfg (set_order E (py_difference currPlayers prev))) (\<lambda>_.
     emit (Sleep 60)))))))"

text \<open>
  \<open>while True\<close> never ends by itself: \<open>main_loop n\<close> runs at most \<open>n\<close> iterations, and
  returns \<open>Inr ()\<close> when all \<open>n\<close> were run (the loop is then still going) and \<open>Inl e\<close> when
  an iteration raised \<open>e\<close>, which ends the process.
\<close>

fun main_loop :: "env \<Rightarrow> config \<Rightarrow> client \<Rightarrow> nat \<Rightarrow> (unit, 'z poller_ext) io" where
  "main_loop E cfg realmsClient 0 = ret ()"
| "main_loop E cfg realmsClient (Suc n) =
     bnd (poll_cycle E cfg realmsClient) (\<lambda>_.
     main_loop E cfg realmsClient n)"

text \<open>The two statements of \<open>main\<close> before the loop.\<close>

definition main_start :: "env \<Rightarrow> config \<Rightarrow> (client, 'z poller_ext) io" where
  "main_start E cfg =
     bnd (client_init E (USERNAME cfg) (EMAIL cfg) (PASSWORD cfg)) (\<lambda>realmsClient.
     bnd (getPlayersList E realmsClient (SERVER_ID cfg)) (\<lambda>names.
     bnd (lift (py_set names)) (\<lambda>players.
     bnd (assign_prevPlayers players) (\<lambda>_.
     ret realmsClient))))"

definition main :: "env \<Rightarrow> config \<Rightarrow> nat \<Rightarrow> (unit, 'z poller_ext) io" where
  "main E cfg n =
     bnd (main_start E cfg) (\<lambda>realmsClient.
     main_loop E cfg realmsClient n)"

definition fresh :: poller where
  "fresh = \<lparr>tick = 0, trace = [], prevPlayers = None\<rparr>"

section \<open>Auxiliary notions for the statements\<close>

text \<open>
  The pattern \<open>pre(.+?)q\<close> has a match that starts at the head of \<open>s\<close>: some non-empty
  group without a line feed stands between the prefix and a delimiter.
\<close>

definition matches_here :: "string \<Rightarrow> char \<Rightarrow> string \<Rightarrow> bool" where
  "matches_here pre q s = (\<exists>g rest. s = pre @ g @ q # rest \<and> g \<noteq> [] \<and> line_feed \<notin> set g)"

text \<open>The set a representation of a Python \<open>set\<close> stands for: its members up to \<open>==\<close>.\<close>

definition members :: "json list \<Rightarrow> json set" where
  "members xs = py_key ` set xs"

text \<open>The events a run appended to the trace are GET requests only.\<close>

definition is_get :: "event \<Rightarrow> bool" where
  "is_get ev = (case ev of Request r \<Rightarrow> req_method r = GET | _ \<Rightarrow> False)"

text \<open>A directory lookup of \<open>getUsername\<close>.\<close>

definition is_lookup :: "env \<Rightarrow> event \<Rightarrow> bool" where
  "is_lookup E ev = (\<exists>uid. ev = Request (getUsername_request E uid))"

text \<open>
  Whatever the outcome, the operation only counts exchanges and appends events to the
  trace, each of them satisfying \<open>P\<close>; the rest of the state is untouched.
\<close>

definition appends :: "(event \<Rightarrow> bool) \<Rightarrow> ('a, 'z) io \<Rightarrow> bool" where
  "appends P m =
     (\<forall>w. \<exists>n evs. snd (m w) = w\<lparr>tick := tick w + n, trace := trace w @ evs\<rparr> \<and> list_all P evs)"

text \<open>The HTTP exchanges of a trace, in order.\<close>

fun requests_of :: "event list \<Rightarrow> request list" where
  "requests_of [] = []"
| "requests_of (Request r # evs) = r # requests_of evs"
| "requests_of (_ # evs) = requests_of evs"

section \<open>Scripted environments\<close>

text \<open>
  A server that answers the n-th exchange with the n-th entry of a script, whatever the
  request, and refuses the connection when the script is over.
\<close>

definition scripted :: "(error + response) list \<Rightarrow> nat \<Rightarrow> request \<Rightarrow> error + response" where
  "scripted answers n r =
     (if n < length answers then answers ! n else Inl (TransportError ''connection refused''))"

definition page :: "string \<Rightarrow> error + response" where
  "page t = Inr \<lparr>res_text = t, res_url = [], res_json = None\<rparr>"

definition redirect :: "string \<Rightarrow> error + response" where
  "redirect u = Inr \<lparr>res_text = [], res_url = u, res_json = None\<rparr>"

definition payload :: "json \<Rightarrow> error + response" where
  "payload j = Inr \<lparr>res_text = [], res_url = [], res_json = Some j\<rparr>"

text \<open>The JSON text of a player entry, \<open>{"playerId": n}\<close>, and three player lists.\<close>

definition player_text :: "string \<Rightarrow> string" where
  "player_text n = ''{'' @ [dquote] @ ''playerId'' @ [dquote] @ '': '' @ n @ ''}''"

definition players7 :: string where
  "players7 = ''['' @ player_text ''7'' @ '']''"

definition players8 :: string where
  "players8 = ''['' @ player_text ''8'' @ '']''"

definition players789 :: string where
  "players789 =
     ''['' @ player_text ''7'' @ '', '' @ player_text ''8'' @ '', '' @ player_text ''9'' @ '']''"

text \<open>A decoder and a \<open>str()\<close> that know the few texts and values of the scripts below.\<close>

definition demo_decoder :: "string \<Rightarrow> json option" where
  "demo_decoder s =
     (if s = ''[]'' then Some (JArr [])
      else if s = players7 then Some (JArr [JObj [(''playerId'', JInt 7)]])
      else if s = players8 then Some (JArr [JObj [(''playerId'', JInt 8)]])
      else if s = players789
        then Some (JArr [JObj [(''playerId'', JInt 7)], JObj [(''playerId'', JInt 8)],
                         JObj [(''playerId'', JInt 9)]])
      else None)"

definition demo_repr :: "json \<Rightarrow> string" where
  "demo_repr v =
     (case v of
        JInt n \<Rightarrow> (if n = 7 then ''7'' else if n = 8 then ''8'' else if n = 9 then ''9''
                   else if n = 42 then ''42'' else ''0'')
      | JBool b \<Rightarrow> (if b then ''True'' else ''False'')
      | JNull \<Rightarrow> ''None''
      | _ \<Rightarrow> ''[]'')"

definition demo_env :: "(error + response) list \<Rightarrow> env" where
  "demo_env answers =
     \<lparr>server = scripted answers, json_decoder = demo_decoder, py_repr = demo_repr,
      set_order = rev\<rparr>"

definition login_page :: string where
  "login_page =
     ''<input value='' @ [dquote] @ ''abc123'' @ [dquote] @ ''/> urlPost:'' @ [squote] @
     ''https://x/y'' @ [squote] @ '',''"

definition demo_credentials :: "string \<rightharpoonup> string" where
  "demo_credentials = [''email'' \<mapsto> ''e@x'', ''password'' \<mapsto> ''pw'']"

definition xbox_answer :: "error + response" where
  "xbox_answer =
     payload (JObj [(''Token'', JStr ''XT''),
                    (''DisplayClaims'', JObj [(''xui'', JArr [JObj [(''uhs'', JStr ''UH'')]])])])"

text \<open>Stage 2 is answered with a redirect whose fragment has no \<open>access_token\<close>.\<close>

definition stage2_script :: "(error + response) list" where
  "stage2_script =
     [page login_page, redirect ''https://a/b#error=access_denied'',
      xbox_answer, payload (JObj [(''Token'', JStr ''XS'')]),
      payload (JObj [(''access_token'', JStr ''MC'')])]"

text \<open>Stages 1 to 4 are answered well; the answer to stage 5 has no \<open>access_token\<close>.\<close>

definition stage5_script :: "(error + response) list" where
  "stage5_script =
     [page login_page, redirect ''https://a/b#access_token=T1&token_type=bearer'',
      xbox_answer, payload (JObj [(''Token'', JStr ''XS'')]),
      payload (JObj [(''error'', JStr ''forbidden'')])]"


text \<open>The presence endpoint's answer, an entry of it, and the directory's answer.\<close>

definition presence_answer :: "json list \<Rightarrow> error + response" where
  "presence_answer entries = payload (JObj [(''lists'', JArr entries)])"

definition entry :: "int \<Rightarrow> string \<Rightarrow> json" where
  "entry sid players = JObj [(''serverId'', JInt sid), (''playerList'', JStr players)]"

definition name_answer :: "string \<Rightarrow> error + response" where
  "name_answer n = payload (JArr [JObj [(''name'', JStr n)]])"

definition demo_client :: client where
  "demo_client = \<lparr>c_username = ''steve'', c_accessToken = JStr ''MC'', c_uid = JInt 42\<rparr>"

definition demo_cfg :: config where
  "demo_cfg = \<lparr>USERNAME = ''steve'', EMAIL = ''e@x'', PASSWORD = ''pw'', SERVER_ID = 5,
               DISCORD_WEBHOOKS_URL = ''https://discord/hook''\<rparr>"

text \<open>
  A whole run of \<open>main\<close>: the five stages, the lookup of the account id, the first query
  (A is playing), and a first iteration whose query is refused although the server would
  answer the next one.
\<close>

definition outage_script :: "(error + response) list" where
  "outage_script =
     [page login_page, redirect ''https://a/b#access_token=T1&token_type=bearer'',
      xbox_answer, payload (JObj [(''Token'', JStr ''XS'')]),
      payload (JObj [(''access_token'', JStr ''MC'')]),
      payload (JObj [(''id'', JInt 42)]),
      presence_answer [entry 5 players7], name_answer ''A'',
      Inl (TransportError ''timed out''),
      presence_answer [entry 5 players7], name_answer ''A'']"

text \<open>
  A run in which the first query finds A, and the query of the first iteration finds
  A, B and C.
\<close>

definition arrival_script :: "(error + response) list" where
  "arrival_script =
     [page login_page, redirect ''https://a/b#access_token=T1&token_type=bearer'',
      xbox_answer, payload (JObj [(''Token'', JStr ''XS'')]),
      payload (JObj [(''access_token'', JStr ''MC'')]),
      payload (JObj [(''id'', JInt 42)]),
      presence_answer [entry 5 players7], name_answer ''A'',
      presence_answer [entry 5 players789],
      name_answer ''A'', name_answer ''B'', name_answer ''C'',
      page [], page []]"


text \<open>No entry carries the target's id 5.\<close>

definition no_match_script :: "(error + response) list" where
  "no_match_script = [presence_answer [entry 1 players7, entry 2 ''[]'']]"

text \<open>Two entries carry the target's id 5; one lookup is answered.\<close>

definition two_matches_script :: "(error + response) list" where
  "two_matches_script =
     [presence_answer [entry 1 ''[]'', entry 5 players7, entry 5 players8],
      name_answer ''A'', name_answer ''B'']"


text \<open>Names for the two runs and for the states they pass through.\<close>

definition outage_env :: env where
  "outage_env = demo_env outage_script"

definition arrival_env :: env where
  "arrival_env = demo_env arrival_script"

definition after_init :: "env \<Rightarrow> poller" where
  "after_init E = snd (client_init E (USERNAME demo_cfg) (EMAIL demo_cfg) (PASSWORD demo_cfg) fresh)"

definition after_query :: "env \<Rightarrow> poller \<Rightarrow> poller" where
  "after_query E s = snd (getPlayersList E demo_client (SERVER_ID demo_cfg) s)"

definition after_start :: "env \<Rightarrow> poller" where
  "after_start E = snd (main_start E demo_cfg fresh)"


section \<open>Properties of the string primitives\<close>

lemma py_split_not_Nil: "py_split sep s \<noteq> []"
  by (induction s) (auto split: list.splits)

lemma py_split_no_sep: "sep \<notin> set s \<Longrightarrow> py_split sep s = [s]"
  by (induction s) auto

lemma length_py_split: "length (py_split sep s) = Suc (count_list s sep)"
  by (induction s) (auto split: list.splits simp: py_split_not_Nil)

lemma params_loop_ok:
  "params_loop ps m = Inr m' \<Longrightarrow> p \<in> set ps \<Longrightarrow> count_list p (CHR ''='') = 1"
proof (induction ps arbitrary: m)
  case Nil
  then show ?case by simp
next
  case (Cons q qs)
  from Cons.prems(1) obtain a b where ab: "py_split (CHR ''='') q = [a, b]"
    by (auto split: list.splits)
  then have "length (py_split (CHR ''='') q) = 2" by simp
  then have q1: "count_list q (CHR ''='') = 1" by (simp add: length_py_split)
  from Cons.prems(1) ab have rest: "params_loop qs (m(a \<mapsto> b)) = Inr m'" by simp
  from Cons.prems(2) have "p = q \<or> p \<in> set qs" by simp
  then show ?case
  proof
    assume "p = q"
    with q1 show ?thesis by simp
  next
    assume "p \<in> set qs"
    with Cons.IH rest show ?thesis by blast
  qed
qed

lemma params_loop_error: "params_loop ps m = Inl e \<Longrightarrow> e = ValueError"
  by (induction ps arbitrary: m) (auto split: list.splits)

lemma params_loop_bad:
  assumes "p \<in> set ps" and "count_list p (CHR ''='') \<noteq> 1"
  shows "params_loop ps m = Inl ValueError"
proof (cases "params_loop ps m")
  case (Inl e)
  then show ?thesis using params_loop_error by blast
next
  case (Inr m')
  with assms params_loop_ok show ?thesis by blast
qed

lemma params_loop_total:
  "(\<forall>p \<in> set ps. count_list p (CHR ''='') = 1) \<Longrightarrow> \<exists>m'. params_loop ps m = Inr m'"
proof (induction ps arbitrary: m)
  case Nil
  then show ?case by simp
next
  case (Cons q qs)
  then have "length (py_split (CHR ''='') q) = 2" by (simp add: length_py_split)
  then obtain a b where "py_split (CHR ''='') q = [a, b]"
    by (cases "py_split (CHR ''='') q" rule: list.exhaust; simp;
        metis Suc_length_conv length_0_conv)
  with Cons show ?case by simp
qed

section \<open>Claims about the fragment parser\<close>

text \<open>
  C3. The fragment parser, applied to \<open>https://a/b#access_token=T1&token_type=bearer\<close>,
  returns exactly the dictionary \<open>{access_token: T1, token_type: bearer}\<close>; and for every
  URL without a \<open>#\<close> it raises instead of returning a dictionary. The exception is
  Python's \<open>IndexError\<close> of \<open>url.split('#')[1]\<close>: this is the failure the specification
  calls \<open>MalformedRedirect\<close>, and no other failure of the parser raises it.
\<close>

theorem getParamsFromUrl_fragment:
  "getParamsFromUrl ''https://a/b#access_token=T1&token_type=bearer''
     = Inr [''access_token'' \<mapsto> ''T1'', ''token_type'' \<mapsto> ''bearer'']
   \<and> (CHR ''#'' \<notin> set url \<longrightarrow> getParamsFromUrl url = Inl IndexError)"
  by (simp add: getParamsFromUrl_def py_split_no_sep)

theorem getParamsFromUrl_fragment_witness:
  "CHR ''#'' \<notin> set ''https://a/b?access_token=T1''
   \<and> getParamsFromUrl ''https://a/b?access_token=T1'' = Inl IndexError
   \<and> getParamsFromUrl ''https://a/b#access_token=T1&token_type=bearer''
     = Inr [''access_token'' \<mapsto> ''T1'', ''token_type'' \<mapsto> ''bearer'']"
  using getParamsFromUrl_fragment [of "''https://a/b?access_token=T1''"] by simp

text \<open>
  C9. The fragment parser returns a dictionary only when every \<open>&\<close>-delimited piece of
  the fragment (the text between the first \<open>#\<close> and the next one, if any) contains exactly
  one \<open>=\<close>; a piece with none, or with two or more, makes the parse raise (\<open>ValueError\<close>,
  from unpacking the split into two names).
\<close>

theorem getParamsFromUrl_one_equals:
  "(getParamsFromUrl url = Inr m \<longrightarrow>
      (\<exists>pre frag rest. py_split (CHR ''#'') url = pre # frag # rest \<and>
         (\<forall>p \<in> set (py_split (CHR ''&'') frag). count_list p (CHR ''='') = 1)))
   \<and> (py_split (CHR ''#'') url' = pre' # frag' # rest' \<and>
        p' \<in> set (py_split (CHR ''&'') frag') \<and> count_list p' (CHR ''='') \<noteq> 1
        \<longrightarrow> getParamsFromUrl url' = Inl ValueError)"
proof (intro conjI impI)
  assume ok: "getParamsFromUrl url = Inr m"
  then obtain pre frag rest where sp: "py_split (CHR ''#'') url = pre # frag # rest"
    by (auto simp: getParamsFromUrl_def split: list.splits)
  with ok have "params_loop (py_split (CHR ''&'') frag) Map.empty = Inr m"
    by (simp add: getParamsFromUrl_def)
  then have "\<forall>p \<in> set (py_split (CHR ''&'') frag). count_list p (CHR ''='') = 1"
    using params_loop_ok by blast
  with sp show "\<exists>pre frag rest. py_split (CHR ''#'') url = pre # frag # rest \<and>
         (\<forall>p \<in> set (py_split (CHR ''&'') frag). count_list p (CHR ''='') = 1)"
    by blast
next
  assume bad: "py_split (CHR ''#'') url' = pre' # frag' # rest' \<and>
        p' \<in> set (py_split (CHR ''&'') frag') \<and> count_list p' (CHR ''='') \<noteq> 1"
  then have "params_loop (py_split (CHR ''&'') frag') Map.empty = Inl ValueError"
    using params_loop_bad by blast
  with bad show "getParamsFromUrl url' = Inl ValueError"
    by (simp add: getParamsFromUrl_def)
qed

theorem getParamsFromUrl_one_equals_witness:
  "getParamsFromUrl ''u#a=1&b=2'' = Inr [''a'' \<mapsto> ''1'', ''b'' \<mapsto> ''2'']
   \<and> (\<exists>pre frag rest. py_split (CHR ''#'') ''u#a=1&b=2'' = pre # frag # rest \<and>
         list_all (\<lambda>p. count_list p (CHR ''='') = 1) (py_split (CHR ''&'') frag))
   \<and> py_split (CHR ''#'') ''u#a=1&b&c=d=e'' = [''u'', ''a=1&b&c=d=e'']
   \<and> ''c=d=e'' \<in> set (py_split (CHR ''&'') ''a=1&b&c=d=e'')
   \<and> count_list ''c=d=e'' (CHR ''='') \<noteq> 1
   \<and> getParamsFromUrl ''u#a=1&b&c=d=e'' = Inl ValueError"
  using getParamsFromUrl_one_equals
    [of "''u#a=1&b=2''" "[''a'' \<mapsto> ''1'', ''b'' \<mapsto> ''2'']" "''u#a=1&b&c=d=e''"
        "''u''" "''a=1&b&c=d=e''" "[]" "''c=d=e''"]
  by (simp add: getParamsFromUrl_def list_all_iff)

section \<open>Running the state-passing combinators\<close>

lemma lift_apply [simp]: "lift r w = (r, w)"
  by (simp add: lift_def)

lemma ret_apply [simp]: "ret a w = (Inr a, w)"
  by (simp add: ret_def)

lemma emit_apply [simp]: "emit ev w = (Inr (), w\<lparr>trace := trace w @ [ev]\<rparr>)"
  by (simp add: emit_def)

lemma bnd_lift [simp]: "bnd (lift r) f w = (case r of Inl e \<Rightarrow> (Inl e, w) | Inr a \<Rightarrow> f a w)"
  by (simp add: bnd_def lift_def split: sum.splits)

lemma bnd_ret [simp]: "bnd (ret a) f w = f a w"
  by (simp add: bnd_def ret_def)

lemma bnd_emit [simp]: "bnd (emit ev) f w = f () (w\<lparr>trace := trace w @ [ev]\<rparr>)"
  by (simp add: bnd_def emit_def)

lemma bnd_http [simp]:
  "bnd (http E r) f w =
     (case server E (tick w) r of
        Inl e \<Rightarrow> (Inl e, w\<lparr>tick := Suc (tick w), trace := trace w @ [Request r]\<rparr>)
      | Inr res \<Rightarrow> f res (w\<lparr>tick := Suc (tick w), trace := trace w @ [Request r]\<rparr>))"
  by (simp add: bnd_def http_def split: sum.splits)

lemma bnd_assoc [simp]: "bnd (bnd m f) g = bnd m (\<lambda>a. bnd (f a) g)"
  by (auto simp: bnd_def fun_eq_iff split: sum.splits prod.splits)

lemma bnd_Inl: "m w = (Inl e, w') \<Longrightarrow> bnd m f w = (Inl e, w')"
  by (simp add: bnd_def)

lemma all_less_upt: "(\<forall>i<n. P i) = list_all P [0..<n]"
  by (auto simp: list_all_iff)

section \<open>The scraper finds the leftmost match\<close>

lemma lazy_until_Some:
  "lazy_until q s = Some g \<Longrightarrow> \<exists>rest. s = g @ q # rest \<and> q \<notin> set g \<and> line_feed \<notin> set g"
proof (induction s arbitrary: g)
  case Nil
  then show ?case by simp
next
  case (Cons d ds)
  show ?case
  proof (cases "d = q")
    case True
    with Cons.prems show ?thesis by auto
  next
    case False
    with Cons.prems obtain g' where g': "d \<noteq> line_feed" "lazy_until q ds = Some g'" "g = d # g'"
      by (auto split: if_splits)
    from Cons.IH[OF g'(2)] obtain rest where "ds = g' @ q # rest" "q \<notin> set g'" "line_feed \<notin> set g'"
      by blast
    with g' False show ?thesis by auto
  qed
qed

lemma lazy_until_first:
  "q \<notin> set g \<Longrightarrow> line_feed \<notin> set g \<Longrightarrow> lazy_until q (g @ q # rest) = Some g"
  by (induction g) auto

lemma lazy_until_None:
  "lazy_until q s = None \<Longrightarrow> s = g @ q # rest \<Longrightarrow> line_feed \<in> set g"
proof (induction s arbitrary: g)
  case Nil
  then show ?case by simp
next
  case (Cons d ds)
  then show ?case
    by (cases g) (auto split: if_splits)
qed

lemma match_at_None_iff: "match_at pre q s = None \<longleftrightarrow> \<not> matches_here pre q s"
proof
  assume none: "match_at pre q s = None"
  show "\<not> matches_here pre q s"
  proof
    assume "matches_here pre q s"
    then obtain g rest where s: "s = pre @ g @ q # rest" and g: "g \<noteq> []" "line_feed \<notin> set g"
      by (auto simp: matches_here_def)
    from g obtain c cs where ccs: "g = c # cs" by (cases g) auto
    from none s ccs g have "lazy_until q (cs @ q # rest) = None"
      by (auto simp: match_at_def lazy_group_def)
    from lazy_until_None[OF this refl] g ccs show False by simp
  qed
next
  assume no: "\<not> matches_here pre q s"
  show "match_at pre q s = None"
  proof (rule ccontr)
    assume "match_at pre q s \<noteq> None"
    then obtain c cs g where pre: "take (length pre) s = pre"
      and d: "drop (length pre) s = c # cs" and c: "c \<noteq> line_feed"
      and g: "lazy_until q cs = Some g"
      by (auto simp: match_at_def lazy_group_def split: if_splits list.splits)
    from lazy_until_Some[OF g] obtain rest where r: "cs = g @ q # rest" "line_feed \<notin> set g" by blast
    have "s = take (length pre) s @ drop (length pre) s" by simp
    with pre d r have "s = pre @ (c # g) @ q # rest" by simp
    with c r(2) have "matches_here pre q s"
      unfolding matches_here_def by (intro exI[of _ "c # g"] exI[of _ rest]) auto
    with no show False by blast
  qed
qed

lemma match_at_literal:
  "c \<noteq> line_feed \<Longrightarrow> q \<notin> set g \<Longrightarrow> line_feed \<notin> set g \<Longrightarrow>
   match_at pre q (pre @ c # g @ q # rest) = Some (pre @ c # g @ [q])"
  by (simp add: match_at_def lazy_group_def lazy_until_first)

lemma re_search_here: "match_at pre q s = Some m \<Longrightarrow> re_search pre q s = Some m"
  by (cases s) auto

lemma re_search_skip:
  "(\<forall>i<length a. match_at pre q (drop i (a @ s)) = None) \<Longrightarrow>
   re_search pre q (a @ s) = re_search pre q s"
proof (induction a)
  case Nil
  then show ?case by simp
next
  case (Cons x xs)
  from Cons.prems have "match_at pre q (drop 0 ((x # xs) @ s)) = None" by blast
  then have here: "match_at pre q (x # xs @ s) = None" by simp
  have "\<forall>i<length xs. match_at pre q (drop i (xs @ s)) = None"
  proof (intro allI impI)
    fix i assume "i < length xs"
    then have "Suc i < length (x # xs)" by simp
    with Cons.prems have "match_at pre q (drop (Suc i) ((x # xs) @ s)) = None" by blast
    then show "match_at pre q (drop i (xs @ s)) = None" by simp
  qed
  with Cons.IH have "re_search pre q (xs @ s) = re_search pre q s" .
  with here show ?case by simp
qed

lemma re_search_leftmost:
  assumes "\<forall>i<length a. \<not> matches_here pre q (drop i (a @ pre @ c # g @ q # rest))"
    and "c \<noteq> line_feed" "q \<notin> set g" "line_feed \<notin> set g"
  shows "re_search pre q (a @ pre @ c # g @ q # rest) = Some (pre @ c # g @ [q])"
proof -
  from assms(1) have "\<forall>i<length a. match_at pre q (drop i (a @ pre @ c # g @ q # rest)) = None"
    by (simp add: match_at_None_iff)
  then have "re_search pre q (a @ pre @ c # g @ q # rest) = re_search pre q (pre @ c # g @ q # rest)"
    by (rule re_search_skip)
  also have "\<dots> = Some (pre @ c # g @ [q])"
    using assms(2-4) by (intro re_search_here match_at_literal)
  finally show ?thesis .
qed

lemma scrape_fixture:
  assumes b1: "body = a @ ''value='' @ [dquote] @ ''abc123'' @ [dquote] @ b"
    and n1: "\<forall>i<length a. \<not> matches_here (''value='' @ [dquote]) dquote (drop i body)"
    and b2: "body = c @ ''urlPost:'' @ [squote] @ ''https://x/y'' @ [squote] @ d"
    and n2: "\<forall>i<length c. \<not> matches_here (''urlPost:'' @ [squote]) squote (drop i body)"
  shows "scrape_login_page body = Inr (''abc123'', ''https://x/y'')"
proof -
  have s1: "re_search (''value='' @ [dquote]) dquote body
              = Some ((''value='' @ [dquote]) @ CHR ''a'' # ''bc123'' @ [dquote])"
    using n1 unfolding b1
    using re_search_leftmost[of a "''value='' @ [dquote]" dquote "CHR ''a''" "''bc123''" b]
    by (simp add: dquote_def line_feed_def)
  have s2: "re_search (''urlPost:'' @ [squote]) squote body
              = Some ((''urlPost:'' @ [squote]) @ CHR ''h'' # ''ttps://x/y'' @ [squote])"
    using n2 unfolding b2
    using re_search_leftmost[of c "''urlPost:'' @ [squote]" squote "CHR ''h''" "''ttps://x/y''" d]
    by (simp add: squote_def line_feed_def)
  show ?thesis
    unfolding scrape_login_page_def s1 s2
    by (simp add: dquote_def squote_def py_slice_to_last_def)
qed

lemma login_page_no_earlier_value:
  "\<forall>i<length ''<input ''.
     \<not> matches_here (''value='' @ [dquote]) dquote (drop i login_page)"
  unfolding match_at_None_iff[symmetric] all_less_upt by code_simp

lemma login_page_no_earlier_urlPost:
  "\<forall>i<length (''<input value='' @ [dquote] @ ''abc123'' @ [dquote] @ ''/> '').
     \<not> matches_here (''urlPost:'' @ [squote]) squote (drop i login_page)"
  unfolding match_at_None_iff[symmetric] all_less_upt by code_simp

lemma scrape_login_page_demo: "scrape_login_page login_page = Inr (''abc123'', ''https://x/y'')"
  by code_simp

text \<open>
  C7. For every response body that contains the literal texts \<open>value="abc123"\<close> and
  \<open>urlPost:'https://x/y'\<close>, with no match of the hidden-field pattern starting before the
  first and no match of the assigned-string pattern starting before the second, stage 1
  returns exactly the pair \<open>("abc123", "https://x/y")\<close>.
\<close>

theorem prepareMicrosoftLogin_fixture:
  assumes "server E (tick w) prepare_request = Inr res"
    and "res_text res = a @ ''value='' @ [dquote] @ ''abc123'' @ [dquote] @ b"
    and "\<forall>i<length a. \<not> matches_here (''value='' @ [dquote]) dquote (drop i (res_text res))"
    and "res_text res = c @ ''urlPost:'' @ [squote] @ ''https://x/y'' @ [squote] @ d"
    and "\<forall>i<length c. \<not> matches_here (''urlPost:'' @ [squote]) squote (drop i (res_text res))"
  shows "fst (prepareMicrosoftLogin E w) = Inr (''abc123'', ''https://x/y'')"
proof -
  have "scrape_login_page (res_text res) = Inr (''abc123'', ''https://x/y'')"
    using assms(2-5) by (rule scrape_fixture)
  with assms(1) show ?thesis
    by (simp add: prepareMicrosoftLogin_def)
qed

theorem prepareMicrosoftLogin_fixture_witness:
  "fst (prepareMicrosoftLogin (demo_env [page login_page]) fresh) = Inr (''abc123'', ''https://x/y'')"
proof (rule prepareMicrosoftLogin_fixture
    [of _ _ "\<lparr>res_text = login_page, res_url = [], res_json = None\<rparr>"
        "''<input ''" "''/> urlPost:'' @ [squote] @ ''https://x/y'' @ [squote] @ '',''"
        "''<input value='' @ [dquote] @ ''abc123'' @ [dquote] @ ''/> ''" "'',''"])
  show "server (demo_env [page login_page]) (tick fresh) prepare_request
          = Inr \<lparr>res_text = login_page, res_url = [], res_json = None\<rparr>"
    by (simp add: demo_env_def scripted_def page_def fresh_def)
  show "res_text \<lparr>res_text = login_page, res_url = [], res_json = None\<rparr>
          = ''<input '' @ ''value='' @ [dquote] @ ''abc123'' @ [dquote] @
            ''/> urlPost:'' @ [squote] @ ''https://x/y'' @ [squote] @ '',''"
    by (simp add: login_page_def)
  show "\<forall>i<length ''<input ''. \<not> matches_here (''value='' @ [dquote]) dquote
          (drop i (res_text \<lparr>res_text = login_page, res_url = [], res_json = None\<rparr>))"
    using login_page_no_earlier_value by simp
  show "res_text \<lparr>res_text = login_page, res_url = [], res_json = None\<rparr>
          = (''<input value='' @ [dquote] @ ''abc123'' @ [dquote] @ ''/> '') @
            ''urlPost:'' @ [squote] @ ''https://x/y'' @ [squote] @ '',''"
    by (simp add: login_page_def)
  show "\<forall>i<length (''<input value='' @ [dquote] @ ''abc123'' @ [dquote] @ ''/> '').
          \<not> matches_here (''urlPost:'' @ [squote]) squote
          (drop i (res_text \<lparr>res_text = login_page, res_url = [], res_json = None\<rparr>))"
    using login_page_no_earlier_urlPost by simp
qed

section \<open>The handshake stops at the first failing stage\<close>

lemma getParamsFromUrl_denied:
  "getParamsFromUrl ''https://a/b#error=access_denied'' = Inr [''error'' \<mapsto> ''access_denied'']"
  by (simp add: getParamsFromUrl_def)

text \<open>
  C1, as the code has it. For every run in which stage 1 succeeded and the redirect that
  answers the login POST of stage 2 has no \<open>access_token\<close> in its fragment (the fragment
  parser raises, or its dictionary lacks the key), \<open>authenticate\<close> raises and returns no
  credential; the run made exactly two exchanges, the GET of stage 1 and the POST of
  stage 2, so stages 3 to 5 made none. The exception is the parser's own (\<open>IndexError\<close>
  or \<open>ValueError\<close>) or \<open>KeyError('access_token')\<close>: a built-in exception with no tag that
  names the stage.
\<close>

theorem authenticate_stops_at_stage2:
  assumes prepared: "server E (tick w) prepare_request = Inr login"
      "scrape_login_page (res_text login) = Inr (sFTTag, urlPost)"
    and creds: "credentials ''email'' = Some email" "credentials ''password'' = Some password"
    and answered:
      "server E (Suc (tick w)) (microsoft_request urlPost sFTTag email password) = Inr res"
    and missing: "\<forall>m. getParamsFromUrl (res_url res) = Inr m \<longrightarrow> m ''access_token'' = None"
  shows "authenticate E credentials w =
     (Inl (case getParamsFromUrl (res_url res) of
             Inl e \<Rightarrow> e
           | Inr m \<Rightarrow> KeyError (JStr ''access_token'')),
      w\<lparr>tick := tick w + 2,
        trace := trace w @
          [Request prepare_request,
           Print ''STATUS 200: Successfully prepared for authentication'',
           Request (microsoft_request urlPost sFTTag email password)]\<rparr>)"
proof (cases "getParamsFromUrl (res_url res)")
  case (Inl e)
  with prepared creds answered show ?thesis
    by (simp add: authenticate_def prepareMicrosoftLogin_def authenticateWithMicrosoft_def
        credential_def)
next
  case (Inr m)
  with missing have "m ''access_token'' = None" by blast
  with Inr prepared creds answered show ?thesis
    by (simp add: authenticate_def prepareMicrosoftLogin_def authenticateWithMicrosoft_def
        credential_def param_def)
qed

theorem authenticate_stops_at_stage2_witness:
  "authenticate (demo_env stage2_script) demo_credentials fresh =
     (Inl (KeyError (JStr ''access_token'')),
      fresh\<lparr>tick := 2,
        trace :=
          [Request prepare_request,
           Print ''STATUS 200: Successfully prepared for authentication'',
           Request (microsoft_request ''https://x/y'' ''abc123'' ''e@x'' ''pw'')]\<rparr>)"
  using authenticate_stops_at_stage2 [of "demo_env stage2_script" fresh
      "\<lparr>res_text = login_page, res_url = [], res_json = None\<rparr>" "''abc123''" "''https://x/y''"
      demo_credentials "''e@x''" "''pw''"
      "\<lparr>res_text = [], res_url = ''https://a/b#error=access_denied'', res_json = None\<rparr>"]
  by (simp add: demo_env_def scripted_def stage2_script_def page_def redirect_def fresh_def
      scrape_login_page_demo demo_credentials_def getParamsFromUrl_denied)

text \<open>
  C1 as stated fails in its last part, that the error identifies stage 2. A run that
  fails in stage 2 (two exchanges made) and a run that fails in stage 5 (five exchanges
  made) raise the same exception, \<open>KeyError('access_token')\<close>.
\<close>

theorem authenticate_error_shared_with_stage5:
  "fst (authenticate (demo_env stage2_script) demo_credentials fresh)
     = Inl (KeyError (JStr ''access_token''))
   \<and> length (requests_of (trace (snd (authenticate (demo_env stage2_script) demo_credentials fresh)))) = 2
   \<and> fst (authenticate (demo_env stage5_script) demo_credentials fresh)
     = Inl (KeyError (JStr ''access_token''))
   \<and> length (requests_of (trace (snd (authenticate (demo_env stage5_script) demo_credentials fresh)))) = 5"
  by code_simp

section \<open>What an operation does to the state\<close>


lemma appendsI:
  "(\<And>w. \<exists>n evs. snd (m w) = w\<lparr>tick := tick w + n, trace := trace w @ evs\<rparr> \<and> list_all P evs)
   \<Longrightarrow> appends P m"
  by (simp add: appends_def)

lemma appendsD:
  "appends P m \<Longrightarrow>
   \<exists>n evs. snd (m w) = w\<lparr>tick := tick w + n, trace := trace w @ evs\<rparr> \<and> list_all P evs"
  by (simp add: appends_def)

lemma appends_lift: "appends P (lift r)"
  by (rule appendsI, rule exI[of _ 0], rule exI[of _ "[]"]) simp

lemma appends_ret: "appends P (ret a)"
  by (rule appendsI, rule exI[of _ 0], rule exI[of _ "[]"]) simp

lemma appends_http: "P (Request r) \<Longrightarrow> appends P (http E r)"
  by (rule appendsI, rule exI[of _ 1], rule exI[of _ "[Request r]"]) (simp add: http_def)

lemma appends_bnd:
  assumes m: "appends P m" and f: "\<And>a. appends P (f a)"
  shows "appends P (bnd m f)"
proof (rule appendsI)
  fix w
  obtain r w1 where mw: "m w = (r, w1)" by (cases "m w")
  from appendsD[OF m, of w] mw obtain n evs
    where w1: "w1 = w\<lparr>tick := tick w + n, trace := trace w @ evs\<rparr>" and evs: "list_all P evs"
    by auto
  show "\<exists>n evs. snd (bnd m f w) = w\<lparr>tick := tick w + n, trace := trace w @ evs\<rparr> \<and> list_all P evs"
  proof (cases r)
    case (Inl e)
    with mw have "snd (bnd m f w) = w1" by (simp add: bnd_def)
    with w1 evs show ?thesis by blast
  next
    case (Inr a)
    with mw have b: "bnd m f w = f a w1" by (simp add: bnd_def)
    from appendsD[OF f, of a w1] obtain n' evs'
      where "snd (f a w1) = w1\<lparr>tick := tick w1 + n', trace := trace w1 @ evs'\<rparr>"
        and evs': "list_all P evs'"
      by auto
    with w1 b have "snd (bnd m f w) = w\<lparr>tick := tick w + (n + n'), trace := trace w @ (evs @ evs')\<rparr>"
      by (simp add: add.assoc)
    moreover from evs evs' have "list_all P (evs @ evs')" by simp
    ultimately show ?thesis by blast
  qed
qed

lemma appends_if: "appends P a \<Longrightarrow> appends P b \<Longrightarrow> appends P (if c then a else b)"
  by simp

lemma appends_getUsername:
  "P (Request (getUsername_request E uid)) \<Longrightarrow> appends P (getUsername E uid)"
  unfolding getUsername_def by (intro appends_bnd appends_http appends_lift)

lemma appends_player_names:
  "(\<And>uid. P (Request (getUsername_request E uid))) \<Longrightarrow> appends P (player_names E ps)"
proof (induction ps)
  case Nil
  show ?case by (simp only: player_names.simps appends_ret)
next
  case (Cons p ps)
  then show ?case
    unfolding player_names.simps getPlayerName_def
    by (intro appends_bnd appends_lift appends_getUsername appends_ret) blast+
qed

lemma appends_entry_players:
  "(\<And>uid. P (Request (getUsername_request E uid))) \<Longrightarrow> appends P (entry_players E m)"
  unfolding entry_players_def
  by (intro appends_bnd appends_lift appends_player_names)

lemma appends_scan_activities:
  "(\<And>uid. P (Request (getUsername_request E uid))) \<Longrightarrow> appends P (scan_activities E t es)"
proof (induction es)
  case Nil
  show ?case by (simp only: scan_activities.simps appends_ret)
next
  case (Cons e es)
  then show ?case
    unfolding scan_activities.simps
    by (intro appends_bnd appends_lift appends_if appends_entry_players) blast+
qed

lemma appends_getPlayersList_tail:
  "(\<And>uid. P (Request (getUsername_request E uid))) \<Longrightarrow>
   appends P (\<lambda>w. bnd (lift (res_json_call res)) (\<lambda>resPayload.
     bnd (lift (subscript_key resPayload ''lists'')) (\<lambda>serverActivityList.
     bnd (lift (py_iter serverActivityList)) (\<lambda>entries.
     scan_activities E t entries))) w)"
  by (intro appends_bnd appends_lift appends_scan_activities)

lemma getPlayersList_trace:
  assumes "\<And>uid. P (Request (getUsername_request E uid))"
  shows "\<exists>n evs. snd (getPlayersList E self t w) =
           w\<lparr>tick := tick w + Suc n, trace := trace w @ Request (presence_request E self) # evs\<rparr>
         \<and> list_all P evs"
proof (cases "server E (tick w) (presence_request E self)")
  case (Inl e)
  then have "snd (getPlayersList E self t w) =
      w\<lparr>tick := tick w + Suc 0, trace := trace w @ Request (presence_request E self) # []\<rparr>"
    by (simp add: getPlayersList_def)
  then show ?thesis by (intro exI[of _ 0] exI[of _ "[]"]) simp
next
  case (Inr res)
  let ?w1 = "w\<lparr>tick := Suc (tick w), trace := trace w @ [Request (presence_request E self)]\<rparr>"
  let ?k = "\<lambda>w. bnd (lift (res_json_call res)) (\<lambda>resPayload.
     bnd (lift (subscript_key resPayload ''lists'')) (\<lambda>serverActivityList.
     bnd (lift (py_iter serverActivityList)) (\<lambda>entries.
     scan_activities E t entries))) w"
  from Inr have g: "getPlayersList E self t w = ?k ?w1"
    by (simp add: getPlayersList_def)
  from appendsD[OF appends_getPlayersList_tail[of P E res t], OF assms, of ?w1]
  obtain n evs where "snd (?k ?w1) = ?w1\<lparr>tick := tick ?w1 + n, trace := trace ?w1 @ evs\<rparr>"
    and evs: "list_all P evs" by blast
  with g have "snd (getPlayersList E self t w) =
      w\<lparr>tick := tick w + Suc n, trace := trace w @ Request (presence_request E self) # evs\<rparr>"
    by simp
  with evs show ?thesis by blast
qed

section \<open>The presence query\<close>

lemma scan_activities_skip:
  assumes "\<forall>entry \<in> set pre. \<exists>sid. subscript_key entry ''serverId'' = Inr sid \<and> \<not> py_eq sid (JInt t)"
  shows "scan_activities E t (pre @ rest) w = scan_activities E t rest w"
  using assms by (induction pre) auto

lemma getPlayersList_answer:
  assumes "server E (tick w) (presence_request E self) = Inr res"
    and "res_json res = Some resPayload"
    and "subscript_key resPayload ''lists'' = Inr (JArr entries)"
  shows "getPlayersList E self t w =
     scan_activities E t entries
       (w\<lparr>tick := Suc (tick w), trace := trace w @ [Request (presence_request E self)]\<rparr>)"
  using assms by (simp add: getPlayersList_def res_json_call_def py_iter_def)

text \<open>
  C4. For every presence response whose list has no entry with the target's id (each
  entry carries a \<open>serverId\<close>, and none of them equals \<open>targetServerId\<close>), \<open>getPlayersList\<close>
  returns the empty list and raises nothing; the GET of the presence endpoint is its only
  exchange.
\<close>

theorem getPlayersList_no_match:
  assumes "server E (tick w) (presence_request E self) = Inr res"
    and "res_json res = Some resPayload"
    and "subscript_key resPayload ''lists'' = Inr (JArr entries)"
    and "\<forall>entry \<in> set entries. \<exists>sid. subscript_key entry ''serverId'' = Inr sid \<and>
           \<not> py_eq sid (JInt targetServerId)"
  shows "getPlayersList E self targetServerId w =
     (Inr [], w\<lparr>tick := Suc (tick w), trace := trace w @ [Request (presence_request E self)]\<rparr>)"
proof -
  from assms(4) have "scan_activities E targetServerId (entries @ []) 
       (w\<lparr>tick := Suc (tick w), trace := trace w @ [Request (presence_request E self)]\<rparr>)
     = scan_activities E targetServerId [] (w\<lparr>tick := Suc (tick w), trace := trace w @ [Request (presence_request E self)]\<rparr>)"
    by (rule scan_activities_skip)
  with getPlayersList_answer[OF assms(1-3)] show ?thesis by simp
qed

theorem getPlayersList_no_match_witness:
  "getPlayersList (demo_env no_match_script) demo_client 5 fresh
   = (Inr [], fresh\<lparr>tick := 1,
                     trace := [Request (presence_request (demo_env no_match_script) demo_client)]\<rparr>)"
proof -
  have answered: "server (demo_env no_match_script) (tick fresh)
        (presence_request (demo_env no_match_script) demo_client)
      = Inr \<lparr>res_text = [], res_url = [],
             res_json = Some (JObj [(''lists'', JArr [entry 1 players7, entry 2 ''[]''])])\<rparr>"
    by code_simp
  have decoded: "res_json \<lparr>res_text = [], res_url = [],
             res_json = Some (JObj [(''lists'', JArr [entry 1 players7, entry 2 ''[]''])])\<rparr>
      = Some (JObj [(''lists'', JArr [entry 1 players7, entry 2 ''[]''])])"
    by simp
  have lists: "subscript_key (JObj [(''lists'', JArr [entry 1 players7, entry 2 ''[]''])]) ''lists''
      = Inr (JArr [entry 1 players7, entry 2 ''[]''])"
    by (simp add: subscript_key_def)
  have others: "\<forall>entry \<in> set [entry 1 players7, entry 2 ''[]''].
      \<exists>sid. subscript_key entry ''serverId'' = Inr sid \<and> \<not> py_eq sid (JInt 5)"
    by (simp add: subscript_key_def entry_def py_eq_def py_key_def)
  from getPlayersList_no_match[OF answered decoded lists others] show ?thesis
    by (simp add: fresh_def)
qed

text \<open>
  C10. For every presence response in which an entry with the target's id is followed by
  further entries (with the same id or not), \<open>getPlayersList\<close> does exactly what the body
  of the loop does on the first such entry, result and exchanges alike: the entries after
  it do not occur in the outcome.
\<close>

theorem getPlayersList_first_match:
  assumes "server E (tick w) (presence_request E self) = Inr res"
    and "res_json res = Some resPayload"
    and "subscript_key resPayload ''lists'' = Inr (JArr (pre @ m # post))"
    and "\<forall>entry \<in> set pre. \<exists>sid. subscript_key entry ''serverId'' = Inr sid \<and>
           \<not> py_eq sid (JInt targetServerId)"
    and "subscript_key m ''serverId'' = Inr sid" and "py_eq sid (JInt targetServerId)"
  shows "getPlayersList E self targetServerId w =
     entry_players E m
       (w\<lparr>tick := Suc (tick w), trace := trace w @ [Request (presence_request E self)]\<rparr>)"
  using assms(5,6)
  by (simp add: getPlayersList_answer[OF assms(1-3)] scan_activities_skip[OF assms(4)])

theorem getPlayersList_first_match_witness:
  "getPlayersList (demo_env two_matches_script) demo_client 5 fresh
   = (Inr [JStr ''A''],
      fresh\<lparr>tick := 2,
        trace := [Request (presence_request (demo_env two_matches_script) demo_client),
                  Request (getUsername_request (demo_env two_matches_script) (JInt 7))]\<rparr>)"
proof -
  have answered: "server (demo_env two_matches_script) (tick fresh)
        (presence_request (demo_env two_matches_script) demo_client)
      = Inr \<lparr>res_text = [], res_url = [],
             res_json = Some (JObj [(''lists'',
               JArr ([entry 1 ''[]''] @ entry 5 players7 # [entry 5 players8]))])\<rparr>"
    by code_simp
  have decoded: "res_json \<lparr>res_text = [], res_url = [],
             res_json = Some (JObj [(''lists'',
               JArr ([entry 1 ''[]''] @ entry 5 players7 # [entry 5 players8]))])\<rparr>
      = Some (JObj [(''lists'', JArr ([entry 1 ''[]''] @ entry 5 players7 # [entry 5 players8]))])"
    by simp
  have lists: "subscript_key
        (JObj [(''lists'', JArr ([entry 1 ''[]''] @ entry 5 players7 # [entry 5 players8]))]) ''lists''
      = Inr (JArr ([entry 1 ''[]''] @ entry 5 players7 # [entry 5 players8]))"
    by (simp add: subscript_key_def)
  have others: "\<forall>entry \<in> set [entry 1 ''[]''].
      \<exists>sid. subscript_key entry ''serverId'' = Inr sid \<and> \<not> py_eq sid (JInt 5)"
    by (simp add: subscript_key_def entry_def py_eq_def py_key_def)
  have first: "subscript_key (entry 5 players7) ''serverId'' = Inr (JInt 5)"
    by (simp add: subscript_key_def entry_def)
  have same: "py_eq (JInt 5) (JInt 5)"
    by (simp add: py_eq_def)
  have body: "entry_players (demo_env two_matches_script) (entry 5 players7)
        (fresh\<lparr>tick := Suc (tick fresh),
           trace := trace fresh @ [Request (presence_request (demo_env two_matches_script) demo_client)]\<rparr>)
      = (Inr [JStr ''A''],
         fresh\<lparr>tick := 2,
           trace := [Request (presence_request (demo_env two_matches_script) demo_client),
                     Request (getUsername_request (demo_env two_matches_script) (JInt 7))]\<rparr>)"
    by code_simp
  from getPlayersList_first_match[OF answered decoded lists others first same] body
  show ?thesis by simp
qed

section \<open>The session cookie\<close>

lemma lookups_not_presence:
  "list_all (is_lookup E) evs \<Longrightarrow>
   \<forall>r \<in> set (requests_of evs). req_url r \<noteq> MC_REALMS_DOMAIN @ ''/activities/liveplayerlist''"
proof (induction evs)
  case Nil
  then show ?case by simp
next
  case (Cons ev evs)
  then obtain uid where "ev = Request (getUsername_request E uid)"
    by (auto simp: is_lookup_def)
  with Cons show ?case
    by (simp add: getUsername_request_def MOJANG_DOMAIN_def MC_REALMS_DOMAIN_def)
qed

lemma client_init_fields:
  assumes "client_init E username email password w0 = (Inr self, w1)"
  shows "c_username self = username \<and>
     (\<exists>w'. authenticate E [''email'' \<mapsto> email, ''password'' \<mapsto> password] w0
              = (Inr (c_accessToken self), w')
          \<and> getUid E username w' = (Inr (c_uid self), w1))"
proof -
  obtain r w' where a: "authenticate E [''email'' \<mapsto> email, ''password'' \<mapsto> password] w0 = (r, w')"
    by (cases "authenticate E [''email'' \<mapsto> email, ''password'' \<mapsto> password] w0")
  obtain r2 w2 where u: "getUid E username w' = (r2, w2)" by (cases "getUid E username w'")
  from assms a u show ?thesis
    by (cases r; cases r2) (auto simp: client_init_def client_authenticate_def bnd_def ret_def)
qed

text \<open>
  C8. Every run of \<open>getPlayersList\<close> starts with the GET of the presence endpoint, and no
  later exchange of the run goes to that endpoint; the request carries one \<open>Cookie\<close>
  header, \<open>sid=token:<accessToken>:<uid>;user=<username>;version=1.18.2\<close>, made of the
  client's three fields and the fixed version tag. The fields of a client built by the
  constructor are the token \<open>authenticate\<close> returned, the id \<open>getUid\<close> returned and the
  profile name it was given.
\<close>

theorem presence_request_cookie:
  "(\<exists>n evs. snd (getPlayersList E self t w) =
        w\<lparr>tick := tick w + Suc n, trace := trace w @ Request (presence_request E self) # evs\<rparr>
      \<and> (\<forall>r \<in> set (requests_of evs). req_url r \<noteq> MC_REALMS_DOMAIN @ ''/activities/liveplayerlist''))
   \<and> req_url (presence_request E self) = MC_REALMS_DOMAIN @ ''/activities/liveplayerlist''
   \<and> req_headers (presence_request E self) =
       [(''Content-Type'', ''application/json''), (''Accept'', ''application/json''),
        (''Cookie'', ''sid=token:'' @ py_str E (c_accessToken self) @ '':'' @ py_str E (c_uid self) @
                     '';user='' @ c_username self @ '';version=1.18.2'')]
   \<and> (client_init E username email password w0 = (Inr self, w1) \<longrightarrow>
        c_username self = username \<and>
        (\<exists>w'. authenticate E [''email'' \<mapsto> email, ''password'' \<mapsto> password] w0
                 = (Inr (c_accessToken self), w')
             \<and> getUid E username w' = (Inr (c_uid self), w1)))"
proof (intro conjI impI)
  have "\<exists>n evs. snd (getPlayersList E self t w) =
           w\<lparr>tick := tick w + Suc n, trace := trace w @ Request (presence_request E self) # evs\<rparr>
         \<and> list_all (is_lookup E) evs"
    by (rule getPlayersList_trace) (auto simp: is_lookup_def)
  then show "\<exists>n evs. snd (getPlayersList E self t w) =
        w\<lparr>tick := tick w + Suc n, trace := trace w @ Request (presence_request E self) # evs\<rparr>
      \<and> (\<forall>r \<in> set (requests_of evs). req_url r \<noteq> MC_REALMS_DOMAIN @ ''/activities/liveplayerlist'')"
    using lookups_not_presence by blast
qed (simp_all add: presence_request_def session_cookie_def client_init_fields)

theorem presence_request_cookie_witness:
  "client_init outage_env ''steve'' ''e@x'' ''pw'' fresh = (Inr demo_client, after_init outage_env)
   \<and> (\<exists>w'. authenticate outage_env [''email'' \<mapsto> ''e@x'', ''password'' \<mapsto> ''pw''] fresh
              = (Inr (JStr ''MC''), w')
          \<and> getUid outage_env ''steve'' w' = (Inr (JInt 42), after_init outage_env))
   \<and> req_headers (presence_request outage_env demo_client) =
       [(''Content-Type'', ''application/json''), (''Accept'', ''application/json''),
        (''Cookie'', ''sid=token:MC:42;user=steve;version=1.18.2'')]"
proof -
  have built: "client_init outage_env ''steve'' ''e@x'' ''pw'' fresh
                 = (Inr demo_client, after_init outage_env)"
    by code_simp
  have cookie: "''sid=token:'' @ py_str outage_env (c_accessToken demo_client) @ '':'' @
                py_str outage_env (c_uid demo_client) @ '';user='' @ c_username demo_client @
                '';version=1.18.2'' = ''sid=token:MC:42;user=steve;version=1.18.2''"
    by code_simp
  from presence_request_cookie
    [of outage_env demo_client 5 fresh "''steve''" "''e@x''" "''pw''" fresh "after_init outage_env"]
    built cookie
  show ?thesis by (simp add: demo_client_def)
qed

section \<open>The poller\<close>

lemma py_eq_key: "list_ex (py_eq x) ys \<longleftrightarrow> py_key x \<in> members ys"
  by (auto simp: list_ex_iff py_eq_def members_def)

lemma members_py_difference: "members (py_difference cur prev) = members cur - members prev"
  by (auto simp: py_difference_def py_eq_key) (auto simp: members_def)

lemma members_py_set_from:
  "py_set_from acc xs = Inr ys \<Longrightarrow> members ys = members acc \<union> members xs"
proof (induction xs arbitrary: acc)
  case Nil
  then show ?case by (simp add: members_def)
next
  case (Cons x xs)
  then have "members ys = members (if list_ex (py_eq x) acc then acc else acc @ [x]) \<union> members xs"
    by (auto split: if_splits)
  then show ?case
    by (auto simp: py_eq_key) (auto simp: members_def)
qed

lemma members_py_set: "py_set names = Inr cur \<Longrightarrow> members cur = members names"
  using members_py_set_from[of "[]" names cur] by (simp add: py_set_def members_def)

lemma getPlayersList_frame:
  assumes "getPlayersList E c t s = (r, s')"
  shows "prevPlayers s' = prevPlayers s \<and> list_all is_get (drop (length (trace s)) (trace s'))"
proof -
  have "\<exists>n evs. snd (getPlayersList E c t s) =
           s\<lparr>tick := tick s + Suc n, trace := trace s @ Request (presence_request E c) # evs\<rparr>
         \<and> list_all is_get evs"
    by (rule getPlayersList_trace) (simp add: is_get_def getUsername_request_def)
  with assms obtain n evs where
    "s' = s\<lparr>tick := tick s + Suc n, trace := trace s @ Request (presence_request E c) # evs\<rparr>"
    and "list_all is_get evs" by auto
  then show ?thesis by (simp add: is_get_def presence_request_def)
qed

lemma appends_notify_all: "appends (\<lambda>_. True) (notify_all E cfg ps)"
proof (induction ps)
  case Nil
  show ?case by (simp only: notify_all.simps appends_ret)
next
  case (Cons p ps)
  then show ?case
    unfolding notify_all.simps by (intro appends_bnd appends_http) simp_all
qed

lemma notify_then_sleep_frame:
  "prevPlayers (snd (bnd (notify_all E cfg ps) (\<lambda>_. emit (Sleep 60)) s)) = prevPlayers s"
proof -
  have "appends (\<lambda>_. True) (bnd (notify_all E cfg ps) (\<lambda>_. emit (Sleep 60)))"
    by (intro appends_bnd appends_notify_all appendsI, rule exI[of _ 0], rule exI[of _ "[Sleep 60]"])
      simp
  from appendsD[OF this, of s] show ?thesis by auto
qed

lemma poll_cycle_ok:
  assumes "getPlayersList E c (SERVER_ID cfg) s = (Inr names, s1)"
    and "py_set names = Inr cur" and "prevPlayers s = Some prev"
  shows "poll_cycle E cfg c s =
     bnd (notify_all E cfg (set_order E (py_difference cur prev))) (\<lambda>_. emit (Sleep 60))
       (s1\<lparr>trace := trace s1 @ [PrintSets prev cur (py_difference cur prev)],
           prevPlayers := Some cur\<rparr>)"
proof -
  from getPlayersList_frame[OF assms(1)] assms(3) have "prevPlayers s1 = Some prev" by simp
  with assms(1,2) show ?thesis
    by (simp add: poll_cycle_def read_prevPlayers_def assign_prevPlayers_def bnd_def)
qed

lemma http_order: "http (E\<lparr>set_order := f\<rparr>) = http E"
  by (simp add: http_def fun_eq_iff)

lemma py_str_order: "py_str (E\<lparr>set_order := f\<rparr>) = py_str E"
  by (simp add: py_str_def fun_eq_iff split: json.splits)

lemma json_loads_order: "json_loads (E\<lparr>set_order := f\<rparr>) = json_loads E"
  by (simp add: json_loads_def fun_eq_iff split: json.splits)

lemma getUsername_order: "getUsername (E\<lparr>set_order := f\<rparr>) uid = getUsername E uid"
  by (simp only: getUsername_def http_order getUsername_request_def py_str_order)

lemma player_names_order: "player_names (E\<lparr>set_order := f\<rparr>) ps = player_names E ps"
  by (induction ps) (simp_all only: player_names.simps getPlayerName_def getUsername_order)

lemma entry_players_order: "entry_players (E\<lparr>set_order := f\<rparr>) m = entry_players E m"
  by (simp only: entry_players_def player_names_order json_loads_order)

lemma scan_activities_order: "scan_activities (E\<lparr>set_order := f\<rparr>) t es = scan_activities E t es"
  by (induction es) (simp_all only: scan_activities.simps entry_players_order)

lemma getPlayersList_order: "getPlayersList (E\<lparr>set_order := f\<rparr>) c t = getPlayersList E c t"
  by (simp only: getPlayersList_def scan_activities_order http_order presence_request_def
      session_cookie_def py_str_order)

text \<open>
  C6. \<open>difference\<close> computes the set difference: the members of \<open>newlyOnlinePlayers\<close> are
  the members of the current set that are not members of the previous one. In an
  iteration whose query returns, the current set has the members of the returned list,
  the iteration prints and notifies that difference, and \<open>prevPlayers\<close> is the current set
  afterwards, whatever the order in which the members of the difference are iterated
  and whether or not a notification raises.
\<close>

theorem poll_cycle_difference:
  "members (py_difference cur prev) = members cur - members prev
   \<and> (getPlayersList E c (SERVER_ID cfg) s = (Inr names, s1) \<and> py_set names = Inr cur \<and>
      prevPlayers s = Some prev \<longrightarrow>
        members cur = members names
      \<and> poll_cycle E cfg c s =
          bnd (notify_all E cfg (set_order E (py_difference cur prev))) (\<lambda>_. emit (Sleep 60))
            (s1\<lparr>trace := trace s1 @ [PrintSets prev cur (py_difference cur prev)],
                prevPlayers := Some cur\<rparr>)
      \<and> prevPlayers (snd (poll_cycle (E\<lparr>set_order := order\<rparr>) cfg c s)) = Some cur)"
proof (intro conjI impI)
  show "members (py_difference cur prev) = members cur - members prev"
    by (rule members_py_difference)
next
  assume h: "getPlayersList E c (SERVER_ID cfg) s = (Inr names, s1) \<and> py_set names = Inr cur \<and>
      prevPlayers s = Some prev"
  then show "members cur = members names" by (simp add: members_py_set)
  from h show "poll_cycle E cfg c s =
          bnd (notify_all E cfg (set_order E (py_difference cur prev))) (\<lambda>_. emit (Sleep 60))
            (s1\<lparr>trace := trace s1 @ [PrintSets prev cur (py_difference cur prev)],
                prevPlayers := Some cur\<rparr>)"
    by (simp add: poll_cycle_ok)
  from h have "getPlayersList (E\<lparr>set_order := order\<rparr>) c (SERVER_ID cfg) s = (Inr names, s1)"
    by (simp add: getPlayersList_order)
  moreover from h have "py_set names = Inr cur" "prevPlayers s = Some prev" by simp_all
  ultimately have "poll_cycle (E\<lparr>set_order := order\<rparr>) cfg c s =
     bnd (notify_all (E\<lparr>set_order := order\<rparr>) cfg (set_order (E\<lparr>set_order := order\<rparr>) (py_difference cur prev))) (\<lambda>_. emit (Sleep 60))
       (s1\<lparr>trace := trace s1 @ [PrintSets prev cur (py_difference cur prev)],
           prevPlayers := Some cur\<rparr>)"
    by (rule poll_cycle_ok)
  then show "prevPlayers (snd (poll_cycle (E\<lparr>set_order := order\<rparr>) cfg c s)) = Some cur"
    by (simp only: notify_then_sleep_frame) simp
qed

theorem poll_cycle_difference_witness:
  "members (py_difference [JStr ''A'', JStr ''B'', JStr ''C''] [JStr ''A'']) = {JStr ''B'', JStr ''C''}
   \<and> members (py_difference [JStr ''A'', JStr ''B''] [JStr ''A'', JStr ''B'']) = {}
   \<and> prevPlayers (snd (poll_cycle (arrival_env\<lparr>set_order := rev\<rparr>) demo_cfg demo_client
                          (after_start arrival_env)))
       = Some [JStr ''A'', JStr ''B'', JStr ''C'']
   \<and> prevPlayers (snd (poll_cycle (arrival_env\<lparr>set_order := id\<rparr>) demo_cfg demo_client
                          (after_start arrival_env)))
       = Some [JStr ''A'', JStr ''B'', JStr ''C'']"
proof -
  have query: "getPlayersList arrival_env demo_client (SERVER_ID demo_cfg) (after_start arrival_env)
     = (Inr [JStr ''A'', JStr ''B'', JStr ''C''], after_query arrival_env (after_start arrival_env))"
    by code_simp
  have cur: "py_set [JStr ''A'', JStr ''B'', JStr ''C''] = Inr [JStr ''A'', JStr ''B'', JStr ''C'']"
    by code_simp
  have prev: "prevPlayers (after_start arrival_env) = Some [JStr ''A'']"
    by code_simp
  note abc = poll_cycle_difference
    [where cur = "[JStr ''A'', JStr ''B'', JStr ''C'']" and prev = "[JStr ''A'']"
       and E = arrival_env and c = demo_client and cfg = demo_cfg
       and s = "after_start arrival_env" and names = "[JStr ''A'', JStr ''B'', JStr ''C'']"
       and ?s1.0 = "after_query arrival_env (after_start arrival_env)"]
  note ab = poll_cycle_difference
    [where cur = "[JStr ''A'', JStr ''B'']" and prev = "[JStr ''A'', JStr ''B'']"
       and E = arrival_env and c = demo_client and cfg = demo_cfg
       and s = "after_start arrival_env" and names = "[JStr ''A'', JStr ''B'', JStr ''C'']"
       and ?s1.0 = "after_query arrival_env (after_start arrival_env)" and order = id]
  from abc [where order = rev] query cur prev
  have by_rev: "prevPlayers (snd (poll_cycle (arrival_env\<lparr>set_order := rev\<rparr>) demo_cfg demo_client
                          (after_start arrival_env)))
       = Some [JStr ''A'', JStr ''B'', JStr ''C'']"
    by blast
  from abc [where order = id] query cur prev
  have by_id: "prevPlayers (snd (poll_cycle (arrival_env\<lparr>set_order := id\<rparr>) demo_cfg demo_client
                          (after_start arrival_env)))
       = Some [JStr ''A'', JStr ''B'', JStr ''C'']"
    by blast
  from abc [where order = id]
  have "members (py_difference [JStr ''A'', JStr ''B'', JStr ''C''] [JStr ''A''])
          = members [JStr ''A'', JStr ''B'', JStr ''C''] - members [JStr ''A'']"
    by blast
  then have arrived: "members (py_difference [JStr ''A'', JStr ''B'', JStr ''C''] [JStr ''A''])
          = {JStr ''B'', JStr ''C''}"
    by (auto simp: members_def py_key_def)
  from ab
  have "members (py_difference [JStr ''A'', JStr ''B''] [JStr ''A'', JStr ''B''])
          = members [JStr ''A'', JStr ''B''] - members [JStr ''A'', JStr ''B'']"
    by blast
  then have nobody: "members (py_difference [JStr ''A'', JStr ''B''] [JStr ''A'', JStr ''B'']) = {}"
    by simp
  from arrived nobody by_rev by_id show ?thesis by blast
qed

text \<open>
  C2, as the code has it. \<open>main\<close> has no handler around the query: in every iteration
  whose query raises, the exception leaves the loop and ends the process, however many
  iterations would have followed. Up to that point the failed iteration made GET
  exchanges only (the query and its lookups: no notification, no sleep) and did not
  assign \<open>prevPlayers\<close>.
\<close>

theorem failed_query_ends_loop:
  assumes "getPlayersList E c (SERVER_ID cfg) s = (Inl e, s')"
  shows "main_loop E cfg c (Suc n) s = (Inl e, s')
       \<and> prevPlayers s' = prevPlayers s
       \<and> list_all is_get (drop (length (trace s)) (trace s'))"
proof -
  have "poll_cycle E cfg c s = (Inl e, s')"
    unfolding poll_cycle_def
    by (rule bnd_Inl[of "getPlayersList E c (SERVER_ID cfg)" s e s', OF assms])
  then have "main_loop E cfg c (Suc n) s = (Inl e, s')"
    by (simp only: main_loop.simps bnd_Inl[of "poll_cycle E cfg c" s e s'])
  with getPlayersList_frame[OF assms] show ?thesis by simp
qed

theorem failed_query_ends_loop_witness:
  "main_loop outage_env demo_cfg demo_client 2 (after_start outage_env)
     = (Inl (TransportError ''timed out''), after_query outage_env (after_start outage_env))
   \<and> prevPlayers (after_query outage_env (after_start outage_env)) = Some [JStr ''A'']"
proof -
  have query: "getPlayersList outage_env demo_client (SERVER_ID demo_cfg) (after_start outage_env)
     = (Inl (TransportError ''timed out''), after_query outage_env (after_start outage_env))"
    by code_simp
  have prev: "prevPlayers (after_start outage_env) = Some [JStr ''A'']"
    by code_simp
  from failed_query_ends_loop[OF query, of 1] prev show ?thesis
    by (simp add: numeral_2_eq_2)
qed

text \<open>
  C2 as stated fails: the process does not go on to the next iteration. In the run below
  the query of the first iteration is refused; \<open>main\<close>, allowed two iterations, ends with
  that exception after nine exchanges, although the server would have answered the
  tenth and the eleventh.
\<close>

theorem main_ends_on_failed_query:
  "fst (main outage_env demo_cfg 2 fresh) = Inl (TransportError ''timed out'')
   \<and> tick (snd (main outage_env demo_cfg 2 fresh)) = 9
   \<and> length outage_script = 11"
  by code_simp

text \<open>
  C5. In a run of \<open>main\<close> whose client is built and whose first query returns, the
  statements before the loop make no exchange after the construction but the GETs of
  that query: no notification, whatever the query returned. They leave \<open>prevPlayers\<close>
  assigned to the set of the returned names, and the first iteration of the loop takes
  its difference against exactly that set.
\<close>

theorem first_query_sets_baseline:
  assumes "client_init E (USERNAME cfg) (EMAIL cfg) (PASSWORD cfg) s = (Inr c, s1)"
    and "getPlayersList E c (SERVER_ID cfg) s1 = (Inr names, s2)"
    and "py_set names = Inr players"
  shows "main_start E cfg s = (Inr c, s2\<lparr>prevPlayers := Some players\<rparr>)
       \<and> members players = members names
       \<and> list_all is_get (drop (length (trace s1)) (trace s2))
       \<and> (getPlayersList E c (SERVER_ID cfg) (s2\<lparr>prevPlayers := Some players\<rparr>) = (Inr names', s4)
            \<and> py_set names' = Inr cur \<longrightarrow>
          poll_cycle E cfg c (s2\<lparr>prevPlayers := Some players\<rparr>) =
            bnd (notify_all E cfg (set_order E (py_difference cur players))) (\<lambda>_. emit (Sleep 60))
              (s4\<lparr>trace := trace s4 @ [PrintSets players cur (py_difference cur players)],
                  prevPlayers := Some cur\<rparr>))"
proof (intro conjI impI)
  show "main_start E cfg s = (Inr c, s2\<lparr>prevPlayers := Some players\<rparr>)"
    using assms by (simp add: main_start_def assign_prevPlayers_def bnd_def)
  show "members players = members names" using assms(3) by (rule members_py_set)
  show "list_all is_get (drop (length (trace s1)) (trace s2))"
    using getPlayersList_frame[OF assms(2)] by simp
next
  assume "getPlayersList E c (SERVER_ID cfg) (s2\<lparr>prevPlayers := Some players\<rparr>) = (Inr names', s4)
            \<and> py_set names' = Inr cur"
  then have "getPlayersList E c (SERVER_ID cfg) (s2\<lparr>prevPlayers := Some players\<rparr>) = (Inr names', s4)"
    and "py_set names' = Inr cur" and "prevPlayers (s2\<lparr>prevPlayers := Some players\<rparr>) = Some players"
    by simp_all
  then show "poll_cycle E cfg c (s2\<lparr>prevPlayers := Some players\<rparr>) =
            bnd (notify_all E cfg (set_order E (py_difference cur players))) (\<lambda>_. emit (Sleep 60))
              (s4\<lparr>trace := trace s4 @ [PrintSets players cur (py_difference cur players)],
                  prevPlayers := Some cur\<rparr>)"
    by (rule poll_cycle_ok)
qed

theorem first_query_sets_baseline_witness:
  "main_start arrival_env demo_cfg fresh
     = (Inr demo_client, (after_query arrival_env (after_init arrival_env))\<lparr>prevPlayers := Some [JStr ''A'']\<rparr>)
   \<and> list_all is_get (drop (length (trace (after_init arrival_env)))
                          (trace (after_query arrival_env (after_init arrival_env))))
   \<and> py_difference [JStr ''A'', JStr ''B'', JStr ''C''] [JStr ''A''] = [JStr ''B'', JStr ''C'']
   \<and> poll_cycle arrival_env demo_cfg demo_client
        ((after_query arrival_env (after_init arrival_env))\<lparr>prevPlayers := Some [JStr ''A'']\<rparr>) =
      bnd (notify_all arrival_env demo_cfg
             (set_order arrival_env (py_difference [JStr ''A'', JStr ''B'', JStr ''C''] [JStr ''A''])))
          (\<lambda>_. emit (Sleep 60))
          ((after_query arrival_env
              ((after_query arrival_env (after_init arrival_env))\<lparr>prevPlayers := Some [JStr ''A'']\<rparr>))
           \<lparr>trace := trace (after_query arrival_env
              ((after_query arrival_env (after_init arrival_env))\<lparr>prevPlayers := Some [JStr ''A'']\<rparr>)) @
              [PrintSets [JStr ''A''] [JStr ''A'', JStr ''B'', JStr ''C'']
                 (py_difference [JStr ''A'', JStr ''B'', JStr ''C''] [JStr ''A''])],
            prevPlayers := Some [JStr ''A'', JStr ''B'', JStr ''C'']\<rparr>)"
proof -
  have built: "client_init arrival_env (USERNAME demo_cfg) (EMAIL demo_cfg) (PASSWORD demo_cfg) fresh
     = (Inr demo_client, after_init arrival_env)"
    by code_simp
  have first: "getPlayersList arrival_env demo_client (SERVER_ID demo_cfg) (after_init arrival_env)
     = (Inr [JStr ''A''], after_query arrival_env (after_init arrival_env))"
    by code_simp
  have players: "py_set [JStr ''A''] = Inr [JStr ''A'']"
    by code_simp
  have second: "getPlayersList arrival_env demo_client (SERVER_ID demo_cfg)
        ((after_query arrival_env (after_init arrival_env))\<lparr>prevPlayers := Some [JStr ''A'']\<rparr>)
     = (Inr [JStr ''A'', JStr ''B'', JStr ''C''],
        after_query arrival_env
          ((after_query arrival_env (after_init arrival_env))\<lparr>prevPlayers := Some [JStr ''A'']\<rparr>))"
    by code_simp
  have cur: "py_set [JStr ''A'', JStr ''B'', JStr ''C''] = Inr [JStr ''A'', JStr ''B'', JStr ''C'']"
    by code_simp
  have diff: "py_difference [JStr ''A'', JStr ''B'', JStr ''C''] [JStr ''A''] = [JStr ''B'', JStr ''C'']"
    by code_simp
  from first_query_sets_baseline[OF built first players,
      of "[JStr ''A'', JStr ''B'', JStr ''C'']"
         "after_query arrival_env
            ((after_query arrival_env (after_init arrival_env))\<lparr>prevPlayers := Some [JStr ''A'']\<rparr>)"
         "[JStr ''A'', JStr ''B'', JStr ''C'']"]
    second cur diff
  show ?thesis by simp
qed

end
